theory Spec2Isabelle
  imports Main
begin

section \<open>Python values, exceptions and text\<close>

text \<open>
  The server is one Python module, \<^verbatim>\<open>server_new.py\<close>. A Python \<^verbatim>\<open>str\<close> is
  modelled by its UTF-8 bytes, as a \<^typ>\<open>string\<close>. Concatenation, \<^verbatim>\<open>join\<close>,
  comparison with an ASCII text and splitting at an ASCII character are the same on
  the bytes as on the characters. The three library functions that look at the
  characters themselves (\<^verbatim>\<open>int\<close>, \<^verbatim>\<open>str.strip\<close>, \<^verbatim>\<open>str.upper\<close>) are defined
  here on ASCII text and taken from the interpreter, a parameter, on any other text.

  The values of the \<^verbatim>\<open>arguments\<close> dictionary of a tool call are JSON values of
  the two types the tools' input schemas declare, string and integer (an integer
  short enough for \<^verbatim>\<open>str\<close> to print it).
\<close>

datatype pyval = PStr string | PInt int

text \<open>
  Every exception the module can let go or catch. \<open>OperationalError\<close> and
  \<open>Error\<close> are the two classes of \<^verbatim>\<open>mysql.connector\<close> the handlers name
  (\<open>Error\<close> stands for every \<^verbatim>\<open>mysql.connector.Error\<close> that is not an
  \<^verbatim>\<open>OperationalError\<close>); both carry \<^verbatim>\<open>str(e)\<close>. \<open>IntLiteralError s\<close> is
  the \<^verbatim>\<open>ValueError\<close> that \<^verbatim>\<open>int(s)\<close> raises on a text \<open>s\<close> it refuses: one
  that is no integer literal, or one with more digits than the interpreter allows.
  \<open>DriverRaised\<close> is any other exception coming out of the driver.
\<close>

datatype exc =
    ValueError string
  | IntLiteralError string
  | TypeError string
  | IndexError string
  | AttributeError string
  | OperationalError string
  | Error string
  | DriverRaised string

text \<open>
  What the module needs of the interpreter beyond ASCII: the limit
  \<^verbatim>\<open>sys.get_int_max_str_digits()\<close> (4300 unless changed, 0 for none), and the
  results of \<^verbatim>\<open>int\<close>, \<^verbatim>\<open>str.strip\<close> and \<^verbatim>\<open>str.upper\<close> on a text with a
  character beyond ASCII, which follow the Unicode tables of the interpreter's version.
\<close>

record python =
  max_str_digits :: nat
  int_unicode :: "string \<Rightarrow> int option"
  strip_unicode :: "string \<Rightarrow> string"
  upper_unicode :: "string \<Rightarrow> string"

definition is_ascii :: "string \<Rightarrow> bool" where
  "is_ascii s = list_all (\<lambda>c. \<not> digit7 c) s"

subsection \<open>\<^verbatim>\<open>str\<close> of an integer\<close>

definition digit_char :: "nat \<Rightarrow> char" where
  "digit_char d = ''0123456789'' ! d"

function str_nat :: "nat \<Rightarrow> string" where
  "str_nat n = (if n < 10 then [digit_char n] else str_nat (n div 10) @ [digit_char (n mod 10)])"
  by pat_completeness auto
termination
  by (relation "measure id") auto

declare str_nat.simps [simp del]

definition str_int :: "int \<Rightarrow> string" where
  "str_int i = (if i < 0 then CHR ''-'' # str_nat (nat (- i)) else str_nat (nat i))"

text \<open>An f-string field \<^verbatim>\<open>{v}\<close> of a value: the text itself, or the decimal numeral.\<close>

fun py_str :: "pyval \<Rightarrow> string" where
  "py_str (PStr s) = s"
| "py_str (PInt i) = str_int i"

text \<open>Truth of a value, as \<^verbatim>\<open>not\<close>, \<^verbatim>\<open>all\<close> and \<^verbatim>\<open>if\<close> test it.\<close>

fun truthy :: "pyval \<Rightarrow> bool" where
  "truthy (PStr s) = (s \<noteq> [])"
| "truthy (PInt i) = (i \<noteq> 0)"

subsection \<open>\<^verbatim>\<open>int\<close> of a text\<close>

text \<open>
  \<^verbatim>\<open>int(s)\<close> on an ASCII text: blanks (tab, line feed, vertical tab, form feed,
  carriage return, space) are dropped at both ends, one sign may follow, then decimal
  digits, where one underscore may stand between two digits. Anything else raises,
  and so does a literal of more than 640 digits that has more digits than the
  interpreter's limit, when there is one. On a text with a character beyond ASCII
  (Unicode digits and blanks are accepted too) the interpreter decides.
\<close>

definition int_space :: "char \<Rightarrow> bool" where
  "int_space c = (c \<in> set [CHR 0x09, CHR 0x0A, CHR 0x0B, CHR 0x0C, CHR 0x0D, CHR 0x20])"

definition is_digit :: "char \<Rightarrow> bool" where
  "is_digit c = (c \<in> set ''0123456789'')"

definition digit_val :: "char \<Rightarrow> nat" where
  "digit_val c = of_char c - 48"

fun parse_digits :: "string \<Rightarrow> nat \<Rightarrow> nat option" where
  "parse_digits [] acc = Some acc"
| "parse_digits (c # cs) acc =
     (if is_digit c then parse_digits cs (10 * acc + digit_val c)
      else if c = CHR ''_'' \<and> (case cs of [] \<Rightarrow> False | d # _ \<Rightarrow> is_digit d)
        then parse_digits cs acc
      else None)"

definition over_digit_limit :: "python \<Rightarrow> string \<Rightarrow> bool" where
  "over_digit_limit py s =
     (let n = length (filter is_digit s)
      in 640 < n \<and> 0 < max_str_digits py \<and> max_str_digits py < n)"

definition parse_unsigned :: "python \<Rightarrow> string \<Rightarrow> nat option" where
  "parse_unsigned py s =
     (case s of
        [] \<Rightarrow> None
      | c # _ \<Rightarrow>
          if is_digit c \<and> \<not> over_digit_limit py s then parse_digits s 0 else None)"

definition int_strip :: "string \<Rightarrow> string" where
  "int_strip s = rev (dropWhile int_space (rev (dropWhile int_space s)))"

definition int_ascii :: "python \<Rightarrow> string \<Rightarrow> int option" where
  "int_ascii py s =
     (case int_strip s of
        [] \<Rightarrow> None
      | c # cs \<Rightarrow>
          if c = CHR ''-'' then map_option (\<lambda>n. - int n) (parse_unsigned py cs)
          else if c = CHR ''+'' then map_option int (parse_unsigned py cs)
          else map_option int (parse_unsigned py (c # cs)))"

definition py_int :: "python \<Rightarrow> string \<Rightarrow> exc + int" where
  "py_int py s =
     (case (if is_ascii s then int_ascii py s else int_unicode py s) of
        None \<Rightarrow> Inl (IntLiteralError s)
      | Some i \<Rightarrow> Inr i)"

section \<open>The configuration loader\<close>

text \<open>
  The process environment is a map from names to texts; \<^verbatim>\<open>os.getenv(k)\<close> is the
  lookup and \<^verbatim>\<open>os.getenv(k, d)\<close> the lookup with a default.
\<close>

type_synonym environ = "string \<rightharpoonup> string"

definition getenv :: "environ \<Rightarrow> string \<Rightarrow> string \<Rightarrow> string" where
  "getenv env k d = (case env k of None \<Rightarrow> d | Some v \<Rightarrow> v)"

text \<open>
  The dictionary \<^verbatim>\<open>config\<close>. Its keys are fixed, so it is a record; the values of
  \<open>host\<close>, \<open>user\<close>, \<open>password\<close> and \<open>database\<close> are \<^typ>\<open>pyval\<close>s because the
  \<^verbatim>\<open>connect\<close> tool may store an argument of either type there.
\<close>

record db_config =
  host :: pyval
  port :: int
  user :: pyval
  password :: pyval
  database :: pyval
  charset :: string
  connection_timeout :: int
  get_warnings :: bool

text \<open>
  \<^verbatim>\<open>get_db_config\<close>. The dictionary display is evaluated key by key, so the
  \<^verbatim>\<open>int\<close> of the port raises first, then the \<^verbatim>\<open>int\<close> of the timeout, and only
  then are the three required settings tested for being present and non-empty.
\<close>

definition env_truthy :: "string option \<Rightarrow> bool" where
  "env_truthy v = (case v of None \<Rightarrow> False | Some s \<Rightarrow> s \<noteq> [])"

definition get_db_config :: "python \<Rightarrow> environ \<Rightarrow> exc + db_config" where
  "get_db_config py env =
     (case py_int py (getenv env ''MYSQL_PORT'' ''3306'') of
        Inl e \<Rightarrow> Inl e
      | Inr p \<Rightarrow>
     (case py_int py (getenv env ''MYSQL_CONNECTION_TIMEOUT'' ''5'') of
        Inl e \<Rightarrow> Inl e
      | Inr t \<Rightarrow>
          if \<not> (env_truthy (env ''MYSQL_USER'') \<and> env_truthy (env ''MYSQL_PASSWORD'')
                 \<and> env_truthy (env ''MYSQL_DATABASE''))
          then Inl (ValueError ''Missing required database configuration'')
          else Inr \<lparr> host = PStr (getenv env ''MYSQL_HOST'' ''localhost''),
                     port = p,
                     user = PStr (the (env ''MYSQL_USER'')),
                     password = PStr (the (env ''MYSQL_PASSWORD'')),
                     database = PStr (the (env ''MYSQL_DATABASE'')),
                     charset = getenv env ''MYSQL_CHARSET'' ''utf8'',
                     connection_timeout = t,
                     get_warnings = True \<rparr>))"

section \<open>Text functions of the standard library\<close>

text \<open>\<^verbatim>\<open>sep.join(xs)\<close>.\<close>

fun join :: "string \<Rightarrow> string list \<Rightarrow> string" where
  "join sep [] = []"
| "join sep [x] = x"
| "join sep (x # y # ys) = x @ sep @ join sep (y # ys)"

text \<open>\<^verbatim>\<open>s.startswith(p)\<close>.\<close>

definition startswith :: "string \<Rightarrow> string \<Rightarrow> bool" where
  "startswith s p = (take (length p) s = p)"

text \<open>
  \<^verbatim>\<open>s.strip()\<close>: on ASCII text, \<^verbatim>\<open>str.strip\<close> drops the six blanks of
  \<^verbatim>\<open>int\<close> and the four separators 28 to 31 at both ends.
\<close>

definition str_space :: "char \<Rightarrow> bool" where
  "str_space c = (int_space c \<or> c \<in> set [CHR 0x1C, CHR 0x1D, CHR 0x1E, CHR 0x1F])"

definition strip_ascii :: "string \<Rightarrow> string" where
  "strip_ascii s = rev (dropWhile str_space (rev (dropWhile str_space s)))"

definition strip :: "python \<Rightarrow> string \<Rightarrow> string" where
  "strip py s = (if is_ascii s then strip_ascii s else strip_unicode py s)"

text \<open>\<^verbatim>\<open>s.upper()\<close>: on ASCII text, the letters a to z become A to Z.\<close>

definition upper_char :: "char \<Rightarrow> char" where
  "upper_char c =
     (case map_of (zip ''abcdefghijklmnopqrstuvwxyz'' ''ABCDEFGHIJKLMNOPQRSTUVWXYZ'') c of
        None \<Rightarrow> c
      | Some u \<Rightarrow> u)"

definition upper :: "python \<Rightarrow> string \<Rightarrow> string" where
  "upper py s = (if is_ascii s then map upper_char s else upper_unicode py s)"

text \<open>
  \<^verbatim>\<open>urllib.parse.quote(s)\<close> with its default \<^verbatim>\<open>safe='/'\<close>, on the UTF-8 bytes
  of a text or on a bytes object: letters, digits and \<^verbatim>\<open>_.-~\<close> are never escaped,
  the slash is not escaped either, and every other byte becomes \<^verbatim>\<open>%XX\<close> with
  capital hexadecimal digits.
\<close>

definition always_safe :: "char \<Rightarrow> bool" where
  "always_safe c =
     (c \<in> set ''ABCDEFGHIJKLMNOPQRSTUVWXYZabcdefghijklmnopqrstuvwxyz0123456789_.-~'')"

definition hex_char :: "nat \<Rightarrow> char" where
  "hex_char d = ''0123456789ABCDEF'' ! d"

definition percent_byte :: "char \<Rightarrow> string" where
  "percent_byte c = [CHR ''%'', hex_char (of_char c div 16), hex_char (of_char c mod 16)]"

definition quote_char :: "char \<Rightarrow> string" where
  "quote_char c = (if always_safe c \<or> c = CHR ''/'' then [c] else percent_byte c)"

definition quote :: "string \<Rightarrow> string" where
  "quote s = concat (map quote_char s)"

section \<open>The database driver\<close>

text \<open>
  \<^verbatim>\<open>mysql.connector\<close> is outside the repository: it is a parameter of the model.
  A cell of a fetched row is a Python object, and the module uses four things of it:
  whether it is a \<^verbatim>\<open>str\<close>, its \<^verbatim>\<open>str()\<close> text, the name of its type (in the
  message of a failing \<^verbatim>\<open>join\<close>) and, in \<^verbatim>\<open>quote\<close>, whether it is a
  \<^verbatim>\<open>bytes\<close> or \<^verbatim>\<open>bytearray\<close> and then its bytes. \<^verbatim>\<open>None\<close>, integers and
  texts have constructors of their own. \<open>CObject ty s b\<close> is any other object
  (a \<^verbatim>\<open>Decimal\<close>, a \<^verbatim>\<open>float\<close>, a \<^verbatim>\<open>datetime\<close>, a \<^verbatim>\<open>bytes\<close> ...): \<open>ty\<close> is
  the name of its type, \<open>s\<close> its \<^verbatim>\<open>str()\<close> text, and \<open>b\<close> its bytes when it is a
  \<^verbatim>\<open>bytes\<close> or a \<^verbatim>\<open>bytearray\<close>.
\<close>

datatype cell = CNull | CInt int | CStr string | CObject string string "string option"

fun str_cell :: "cell \<Rightarrow> string" where
  "str_cell CNull = ''None''"
| "str_cell (CInt i) = str_int i"
| "str_cell (CStr s) = s"
| "str_cell (CObject ty s b) = s"

fun type_name :: "cell \<Rightarrow> string" where
  "type_name CNull = ''NoneType''"
| "type_name (CInt i) = ''int''"
| "type_name (CStr s) = ''str''"
| "type_name (CObject ty s b) = ty"

text \<open>
  What a cursor shows after \<^verbatim>\<open>cursor.execute\<close> has returned: the column names
  of \<^verbatim>\<open>cursor.description\<close> (\<open>None\<close> when the statement has no result set), what
  \<^verbatim>\<open>fetchall()\<close> returns or raises, \<^verbatim>\<open>rowcount\<close>, and what \<^verbatim>\<open>conn.commit()\<close>
  raises, if anything.
\<close>

record cursor =
  description :: "string list option"
  fetchall :: "exc + cell list list"
  rowcount :: int
  commit :: "exc option"

text \<open>
  One \<^verbatim>\<open>with connect(**config) as conn: with conn.cursor() as cursor:\<close> block
  running one statement. Either \<^verbatim>\<open>connect\<close> raises and no block is entered, or
  the blocks are entered: then \<^verbatim>\<open>conn.cursor()\<close> and \<^verbatim>\<open>cursor.execute\<close> raise
  or give a cursor, and leaving the blocks (closing cursor and connection) raises or
  does not.
\<close>

datatype session = ConnectFailed exc | Session "exc + cursor" "exc option"

type_synonym driver = "db_config \<Rightarrow> pyval \<Rightarrow> session"

text \<open>
  The block with the code \<open>body\<close> after \<^verbatim>\<open>cursor.execute\<close>. An exception raised
  on leaving the blocks replaces the body's result, be it a value or an exception.
\<close>

definition run_session :: "session \<Rightarrow> (cursor \<Rightarrow> exc + 'a) \<Rightarrow> exc + 'a" where
  "run_session ss body =
     (case ss of
        ConnectFailed e \<Rightarrow> Inl e
      | Session executed closing \<Rightarrow>
          (case closing of
             Some e \<Rightarrow> Inl e
           | None \<Rightarrow> (case executed of Inl e \<Rightarrow> Inl e | Inr cur \<Rightarrow> body cur)))"

section \<open>The connection state and the results of an operation\<close>

record conn_details =
  d_host :: pyval
  d_port :: int
  d_user :: pyval
  d_database :: pyval

record connection_state =
  is_connected :: bool
  last_error :: "string option"
  connection_details :: "conn_details option"

text \<open>
  The module's \<^verbatim>\<open>CONNECTION_STATE\<close> as \<^verbatim>\<open>main\<close> leaves it before serving.
\<close>

definition initial_state :: connection_state where
  "initial_state = \<lparr> is_connected = False, last_error = None, connection_details = None \<rparr>"

text \<open>
  An operation ends by returning a value or letting an exception go, leaves a
  \<^verbatim>\<open>CONNECTION_STATE\<close>, and has called \<^verbatim>\<open>connect(**config)\<close> for some
  statements: \<open>db_calls\<close> lists each configuration with the statement it was opened for.
\<close>

record 'a ran =
  returned :: "exc + 'a"
  state_after :: connection_state
  db_calls :: "(db_config \<times> pyval) list"

datatype text_content = TextContent string string

definition reply :: "string \<Rightarrow> text_content list" where
  "reply t = [TextContent ''text'' t]"


section \<open>The resource catalog\<close>

text \<open>
  The keyword arguments of \<^verbatim>\<open>Resource(...)\<close> as the module passes them; \<open>r_uri\<close> is
  the text given as \<^verbatim>\<open>uri\<close>. What the transport's URL type makes of a text is
  outside the module.
\<close>

record resource =
  r_uri :: string
  r_name :: string
  r_mimeType :: string
  r_description :: string

text \<open>
  One turn of the loop of \<^verbatim>\<open>list_resources\<close>: \<^verbatim>\<open>table[0]\<close> raises on an empty
  row, \<^verbatim>\<open>quote\<close> takes a text or a bytes object and raises on anything else, and
  the two f-strings print the name with \<^verbatim>\<open>str\<close>.
\<close>

fun resource_of :: "cell list \<Rightarrow> exc + resource" where
  "resource_of [] = Inl (IndexError ''tuple index out of range'')"
| "resource_of (CStr table_name # _) =
     Inr \<lparr> r_uri = ''mysql://'' @ quote table_name @ ''/data'',
           r_name = ''Table: '' @ table_name,
           r_mimeType = ''text/plain'',
           r_description = ''Data in table: '' @ table_name \<rparr>"
| "resource_of (CObject ty s (Some b) # _) =
     Inr \<lparr> r_uri = ''mysql://'' @ quote b @ ''/data'',
           r_name = ''Table: '' @ s,
           r_mimeType = ''text/plain'',
           r_description = ''Data in table: '' @ s \<rparr>"
| "resource_of (_ # _) = Inl (TypeError ''quote_from_bytes() expected bytes'')"

fun resources_of :: "cell list list \<Rightarrow> exc + resource list" where
  "resources_of [] = Inr []"
| "resources_of (table # tables) =
     (case resource_of table of
        Inl e \<Rightarrow> Inl e
      | Inr r \<Rightarrow> (case resources_of tables of Inl e \<Rightarrow> Inl e | Inr rs \<Rightarrow> Inr (r # rs)))"

definition list_resources_body :: "cursor \<Rightarrow> exc + resource list" where
  "list_resources_body cur =
     (case fetchall cur of Inl e \<Rightarrow> Inl e | Inr tables \<Rightarrow> resources_of tables)"

text \<open>The two \<^verbatim>\<open>except\<close> clauses of \<^verbatim>\<open>list_resources\<close>.\<close>

fun list_resources_end ::
  "connection_state \<Rightarrow> exc + resource list \<Rightarrow> (exc + resource list) \<times> connection_state" where
  "list_resources_end st (Inr rs) = (Inr rs, st)"
| "list_resources_end st (Inl (OperationalError m)) =
     (Inr [], st\<lparr> is_connected := False, last_error := Some m \<rparr>)"
| "list_resources_end st (Inl (Error m)) = (Inr [], st)"
| "list_resources_end st (Inl e) = (Inl e, st)"

definition list_resources ::
  "python \<Rightarrow> environ \<Rightarrow> driver \<Rightarrow> connection_state \<Rightarrow> resource list ran" where
  "list_resources py env drv st =
     (if \<not> is_connected st then \<lparr> returned = Inr [], state_after = st, db_calls = [] \<rparr>
      else case get_db_config py env of
        Inl e \<Rightarrow> \<lparr> returned = Inl e, state_after = st, db_calls = [] \<rparr>
      | Inr config \<Rightarrow>
          (let q = PStr ''SHOW TABLES'';
               (r, st') = list_resources_end st (run_session (drv config q) list_resources_body)
           in \<lparr> returned = r, state_after = st', db_calls = [(config, q)] \<rparr>))"

text \<open>
  The header and the lines of a result set, as \<^verbatim>\<open>read_resource\<close> and the
  \<^verbatim>\<open>SELECT\<close> branch of \<^verbatim>\<open>execute_sql\<close> both build them. Iterating over a
  \<^verbatim>\<open>description\<close> that is \<^verbatim>\<open>None\<close> raises.
\<close>

definition format_rows :: "cursor \<Rightarrow> exc + string" where
  "format_rows cur =
     (case description cur of
        None \<Rightarrow> Inl (TypeError (CHR 0x27 # ''NoneType' object is not iterable''))
      | Some columns \<Rightarrow>
          (case fetchall cur of
             Inl e \<Rightarrow> Inl e
           | Inr rows \<Rightarrow>
               Inr (join [CHR 0x0A]
                      (join '','' columns # map (\<lambda>row. join '','' (map str_cell row)) rows))))"

fun read_resource_end ::
  "connection_state \<Rightarrow> exc + string \<Rightarrow> (exc + string) \<times> connection_state" where
  "read_resource_end st (Inr t) = (Inr t, st)"
| "read_resource_end st (Inl (OperationalError m)) =
     (Inr (''Error: Connection to MySQL lost. '' @ m),
      st\<lparr> is_connected := False, last_error := Some m \<rparr>)"
| "read_resource_end st (Inl (Error m)) = (Inr (''Error: '' @ m), st)"
| "read_resource_end st (Inl e) = (Inl e, st)"

text \<open>
  \<^verbatim>\<open>read_resource\<close>, on the text \<^verbatim>\<open>str(uri)\<close>. The table is
  \<^verbatim>\<open>uri_str[8:].split('/')[0]\<close>, the text up to the first slash after the scheme.
\<close>

definition table_of_uri :: "string \<Rightarrow> string" where
  "table_of_uri uri_str = takeWhile (\<lambda>c. c \<noteq> CHR ''/'') (drop 8 uri_str)"

definition read_resource ::
  "python \<Rightarrow> environ \<Rightarrow> driver \<Rightarrow> string \<Rightarrow> connection_state \<Rightarrow> string ran" where
  "read_resource py env drv uri_str st =
     (if \<not> is_connected st
      then \<lparr> returned = Inr ''Error: Not connected to MySQL. Please use the 'connect' tool first.'',
             state_after = st, db_calls = [] \<rparr>
      else case get_db_config py env of
        Inl e \<Rightarrow> \<lparr> returned = Inl e, state_after = st, db_calls = [] \<rparr>
      | Inr config \<Rightarrow>
          if \<not> startswith uri_str ''mysql://''
          then \<lparr> returned = Inl (ValueError (''Invalid URI scheme: '' @ uri_str)),
                 state_after = st, db_calls = [] \<rparr>
          else
            (let q = PStr (''SELECT * FROM '' @ table_of_uri uri_str @ '' LIMIT 100'');
                 (r, st') = read_resource_end st (run_session (drv config q) format_rows)
             in \<lparr> returned = r, state_after = st', db_calls = [(config, q)] \<rparr>))"

section \<open>The tool dispatcher\<close>

type_synonym arguments = "string \<rightharpoonup> pyval"

subsection \<open>\<^verbatim>\<open>connect\<close>\<close>

text \<open>\<^verbatim>\<open>int(v)\<close> of an argument: an integer as it is, a text through \<^verbatim>\<open>int\<close>.\<close>

fun int_of_val :: "python \<Rightarrow> pyval \<Rightarrow> exc + int" where
  "int_of_val py (PInt i) = Inr i"
| "int_of_val py (PStr s) = py_int py s"

text \<open>
  The five \<^verbatim>\<open>if k in arguments\<close> overrides, in the order of the source; only the
  \<^verbatim>\<open>int\<close> of the port can raise.
\<close>

definition apply_overrides :: "python \<Rightarrow> arguments \<Rightarrow> db_config \<Rightarrow> exc + db_config" where
  "apply_overrides py arguments config =
     (let c1 = (case arguments ''host'' of None \<Rightarrow> config | Some v \<Rightarrow> config\<lparr> host := v \<rparr>)
      in case (case arguments ''port'' of
                 None \<Rightarrow> Inr c1
               | Some v \<Rightarrow> (case int_of_val py v of Inl e \<Rightarrow> Inl e | Inr p \<Rightarrow> Inr (c1\<lparr> port := p \<rparr>))) of
           Inl e \<Rightarrow> Inl e
         | Inr c2 \<Rightarrow>
             (let c3 = (case arguments ''user'' of None \<Rightarrow> c2 | Some v \<Rightarrow> c2\<lparr> user := v \<rparr>);
                  c4 = (case arguments ''password'' of None \<Rightarrow> c3 | Some v \<Rightarrow> c3\<lparr> password := v \<rparr>);
                  c5 = (case arguments ''database'' of None \<Rightarrow> c4 | Some v \<Rightarrow> c4\<lparr> database := v \<rparr>)
              in Inr c5))"

definition at_as_database :: "pyval \<Rightarrow> int \<Rightarrow> pyval \<Rightarrow> pyval \<Rightarrow> string" where
  "at_as_database h p u d =
     py_str h @ '':'' @ str_int p @ '' as '' @ py_str u @ '' (database: '' @ py_str d @ '')''"

definition set_connected :: "db_config \<Rightarrow> connection_state \<Rightarrow> connection_state" where
  "set_connected config st =
     st\<lparr> is_connected := True,
         last_error := None,
         connection_details :=
           Some \<lparr> d_host = host config, d_port = port config,
                  d_user = user config, d_database = database config \<rparr> \<rparr>"

text \<open>The two \<^verbatim>\<open>except\<close> clauses of the \<^verbatim>\<open>connect\<close> branch.\<close>

fun connect_except ::
  "connection_state \<Rightarrow> exc \<Rightarrow> (exc + text_content list) \<times> connection_state" where
  "connect_except st (OperationalError m) =
     (Inr (reply (''Failed to connect to MySQL: '' @ m)),
      st\<lparr> is_connected := False, last_error := Some m \<rparr>)"
| "connect_except st (Error m) =
     (Inr (reply (''Database error: '' @ m)),
      st\<lparr> is_connected := False, last_error := Some m \<rparr>)"
| "connect_except st e = (Inl e, st)"

text \<open>
  The state is set to connected inside the blocks, right after the probe statement
  has run; an exception raised on leaving the blocks then reaches the handlers with
  the state already set.
\<close>

definition connect_tool ::
  "python \<Rightarrow> environ \<Rightarrow> driver \<Rightarrow> arguments \<Rightarrow> connection_state \<Rightarrow> text_content list ran" where
  "connect_tool py env drv arguments st =
     (case get_db_config py env of
        Inl e \<Rightarrow> \<lparr> returned = Inl e, state_after = st, db_calls = [] \<rparr>
      | Inr base \<Rightarrow>
          (case apply_overrides py arguments base of
             Inl e \<Rightarrow> \<lparr> returned = Inl e, state_after = st, db_calls = [] \<rparr>
           | Inr config \<Rightarrow>
               (let q = PStr ''SELECT 1'';
                    (r, st') =
                      (case drv config q of
                         ConnectFailed e \<Rightarrow> connect_except st e
                       | Session (Inl e) closing \<Rightarrow>
                           connect_except st (case closing of None \<Rightarrow> e | Some e' \<Rightarrow> e')
                       | Session (Inr cur) closing \<Rightarrow>
                           (let st1 = set_connected config st
                            in case closing of
                                 None \<Rightarrow>
                                   (Inr (reply (''Successfully connected to MySQL at '' @
                                      at_as_database (host config) (port config)
                                        (user config) (database config))), st1)
                               | Some e \<Rightarrow> connect_except st1 e))
                in \<lparr> returned = r, state_after = st', db_calls = [(config, q)] \<rparr>)))"

subsection \<open>\<^verbatim>\<open>connection_status\<close>\<close>

definition connection_status :: "connection_state \<Rightarrow> exc + text_content list" where
  "connection_status st =
     (if is_connected st then
        (case connection_details st of
           None \<Rightarrow> Inl (TypeError (CHR 0x27 # ''NoneType' object is not subscriptable''))
         | Some details \<Rightarrow>
             Inr (reply (''Connected to MySQL at '' @
               at_as_database (d_host details) (d_port details)
                 (d_user details) (d_database details))))
      else
        Inr (reply (''Not connected to MySQL.'' @
          (case last_error st of
             None \<Rightarrow> []
           | Some m \<Rightarrow> if m = [] then [] else '' Last error: '' @ m))))"

subsection \<open>\<^verbatim>\<open>execute_sql\<close>\<close>

text \<open>\<^verbatim>\<open>[table[0] for table in tables]\<close>.\<close>

fun first_cells :: "cell list list \<Rightarrow> exc + cell list" where
  "first_cells [] = Inr []"
| "first_cells ([] # _) = Inl (IndexError ''tuple index out of range'')"
| "first_cells ((c # _) # tables) =
     (case first_cells tables of Inl e \<Rightarrow> Inl e | Inr cs \<Rightarrow> Inr (c # cs))"

text \<open>
  \<^verbatim>\<open>join\<close> wants texts: the first item that is none raises, with its index in
  the joined list.
\<close>

fun str_items :: "nat \<Rightarrow> cell list \<Rightarrow> exc + string list" where
  "str_items i [] = Inr []"
| "str_items i (CStr s # cs) =
     (case str_items (Suc i) cs of Inl e \<Rightarrow> Inl e | Inr ss \<Rightarrow> Inr (s # ss))"
| "str_items i (c # cs) =
     Inl (TypeError (''sequence item '' @ str_nat i @ '': expected str instance, '' @
                     type_name c @ '' found''))"

definition show_tables_text :: "db_config \<Rightarrow> cursor \<Rightarrow> exc + string" where
  "show_tables_text config cur =
     (case fetchall cur of
        Inl e \<Rightarrow> Inl e
      | Inr tables \<Rightarrow>
          (case database config of
             PInt _ \<Rightarrow>
               Inl (TypeError (''can only concatenate str (not '' @ [CHR 0x22] @ ''int'' @
                                [CHR 0x22] @ '') to str''))
           | PStr d \<Rightarrow>
               (case first_cells tables of
                  Inl e \<Rightarrow> Inl e
                | Inr cells \<Rightarrow>
                    (case str_items 1 cells of
                       Inl e \<Rightarrow> Inl e
                     | Inr names \<Rightarrow> Inr (join [CHR 0x0A] ((''Tables_in_'' @ d) # names))))))"

text \<open>
  The code after \<^verbatim>\<open>cursor.execute(query)\<close>: the statement is told by the prefix
  of \<^verbatim>\<open>query.strip().upper()\<close>, \<^verbatim>\<open>SHOW TABLES\<close> being tested first. A query that
  is an integer has no \<^verbatim>\<open>strip\<close>.
\<close>

definition execute_body :: "python \<Rightarrow> db_config \<Rightarrow> pyval \<Rightarrow> cursor \<Rightarrow> exc + string" where
  "execute_body py config query cur =
     (case query of
        PInt _ \<Rightarrow> Inl (AttributeError (CHR 0x27 # ''int' object has no attribute 'strip'' @ [CHR 0x27]))
      | PStr q \<Rightarrow>
          if startswith (upper py (strip py q)) ''SHOW TABLES'' then show_tables_text config cur
          else if startswith (upper py (strip py q)) ''SELECT'' then format_rows cur
          else (case commit cur of
                  Some e \<Rightarrow> Inl e
                | None \<Rightarrow>
                    Inr (''Query executed successfully. Rows affected: '' @ str_int (rowcount cur))))"

fun execute_end ::
  "connection_state \<Rightarrow> exc + string \<Rightarrow> (exc + text_content list) \<times> connection_state" where
  "execute_end st (Inr t) = (Inr (reply t), st)"
| "execute_end st (Inl (OperationalError m)) =
     (Inr (reply (''Connection lost: '' @ m @ ''. Please reconnect using the 'connect' tool.'')),
      st\<lparr> is_connected := False, last_error := Some m \<rparr>)"
| "execute_end st (Inl (Error m)) = (Inr (reply (''Error executing query: '' @ m)), st)"
| "execute_end st (Inl e) = (Inl e, st)"

definition execute_sql ::
  "python \<Rightarrow> environ \<Rightarrow> driver \<Rightarrow> arguments \<Rightarrow> connection_state \<Rightarrow> text_content list ran" where
  "execute_sql py env drv arguments st =
     (if \<not> is_connected st
      then \<lparr> returned = Inr (reply ''Not connected to MySQL. Please use the 'connect' tool first.''),
             state_after = st, db_calls = [] \<rparr>
      else if \<not> (case arguments ''query'' of None \<Rightarrow> False | Some query \<Rightarrow> truthy query)
      then \<lparr> returned = Inl (ValueError ''Query is required''), state_after = st, db_calls = [] \<rparr>
      else
        (let query = the (arguments ''query'')
         in case get_db_config py env of
              Inl e \<Rightarrow> \<lparr> returned = Inl e, state_after = st, db_calls = [] \<rparr>
            | Inr config \<Rightarrow>
                (let (r, st') =
                       execute_end st (run_session (drv config query) (execute_body py config query))
                 in \<lparr> returned = r, state_after = st', db_calls = [(config, query)] \<rparr>)))"

subsection \<open>\<^verbatim>\<open>call_tool\<close>\<close>

definition call_tool ::
  "python \<Rightarrow> environ \<Rightarrow> driver \<Rightarrow> string \<Rightarrow> arguments \<Rightarrow> connection_state \<Rightarrow> text_content list ran" where
  "call_tool py env drv name arguments st =
     (if name = ''connect'' then connect_tool py env drv arguments st
      else if name = ''disconnect'' then
        \<lparr> returned = Inr (reply ''Disconnected from MySQL.''),
          state_after = st\<lparr> is_connected := False, last_error := None \<rparr>,
          db_calls = [] \<rparr>
      else if name = ''connection_status'' then
        \<lparr> returned = connection_status st, state_after = st, db_calls = [] \<rparr>
      else if name = ''execute_sql'' then execute_sql py env drv arguments st
      else \<lparr> returned = Inl (ValueError (''Unknown tool: '' @ name)),
             state_after = st, db_calls = [] \<rparr>)"

section \<open>Sequences of operations\<close>

text \<open>
  The transport calls one handler per request. Each request meets the environment
  and the database as they are at that moment, so a step carries both.
\<close>

datatype request = ListResources | ReadResource string | CallTool string arguments

fun handle ::
  "python \<Rightarrow> environ \<Rightarrow> driver \<Rightarrow> request \<Rightarrow> connection_state \<Rightarrow> connection_state" where
  "handle py env drv ListResources st = state_after (list_resources py env drv st)"
| "handle py env drv (ReadResource uri_str) st = state_after (read_resource py env drv uri_str st)"
| "handle py env drv (CallTool name arguments) st = state_after (call_tool py env drv name arguments st)"

fun run ::
  "python \<Rightarrow> (environ \<times> driver \<times> request) list \<Rightarrow> connection_state \<Rightarrow> connection_state" where
  "run py [] st = st"
| "run py ((env, drv, rq) # steps) st = run py steps (handle py env drv rq st)"

section \<open>Percent-encoding of a path segment\<close>

text \<open>
  The encoding the specification describes for the table name in a resource URI:
  every byte other than a letter, a digit or one of \<^verbatim>\<open>_.-~\<close> is escaped.
\<close>

definition percent_encoded :: "string \<Rightarrow> string" where
  "percent_encoded s = concat (map (\<lambda>c. if always_safe c then [c] else percent_byte c) s)"

section \<open>Concrete inputs\<close>

text \<open>
  An environment with only the three required settings and the configuration it
  gives; a cursor over the table \<open>t\<close> with columns \<open>a\<close>, \<open>b\<close> and rows \<open>(1, x)\<close>,
  \<open>(2, y)\<close>; the cursor after a statement without a result set.
\<close>

definition example_env :: environ where
  "example_env =
     [''MYSQL_USER'' \<mapsto> ''u'', ''MYSQL_PASSWORD'' \<mapsto> ''p'', ''MYSQL_DATABASE'' \<mapsto> ''d'']"

definition example_config :: db_config where
  "example_config =
     \<lparr> host = PStr ''localhost'', port = 3306, user = PStr ''u'', password = PStr ''p'',
       database = PStr ''d'', charset = ''utf8'', connection_timeout = 5,
       get_warnings = True \<rparr>"

definition example_cursor :: cursor where
  "example_cursor =
     \<lparr> description = Some [''a'', ''b''],
       fetchall = Inr [[CInt 1, CStr ''x''], [CInt 2, CStr ''y'']],
       rowcount = 2,
       commit = None \<rparr>"

definition no_result_cursor :: cursor where
  "no_result_cursor =
     \<lparr> description = None,
       fetchall = Inl (Error ''No result set to fetch from.''),
       rowcount = 1,
       commit = None \<rparr>"

text \<open>
  Databases: one that answers every statement with the example cursor; one where
  every statement fails; one that runs every statement without a result set; one that
  can be reached under one host name only; one that holds one table only and answers
  the statement \<^verbatim>\<open>SELECT * FROM\<close> that table \<^verbatim>\<open>LIMIT 100\<close> and no other; one
  that lists the given table names.
\<close>

definition example_driver :: driver where
  "example_driver config q = Session (Inr example_cursor) None"

definition failing_driver :: driver where
  "failing_driver config q = Session (Inl (Error ''1146 (42S02): no such table'')) None"

definition no_result_driver :: driver where
  "no_result_driver config q = Session (Inr no_result_cursor) None"

definition host_driver :: "string \<Rightarrow> driver" where
  "host_driver h config q =
     (if host config = PStr h then Session (Inr example_cursor) None
      else ConnectFailed (OperationalError ''2005: Unknown MySQL server host''))"

definition one_table_driver :: "string \<Rightarrow> driver" where
  "one_table_driver table config q =
     (if q = PStr (''SELECT * FROM '' @ table @ '' LIMIT 100'')
      then Session (Inr example_cursor) None
      else Session (Inl (Error ''1146 (42S02): no such table'')) None)"

definition tables_driver :: "string list \<Rightarrow> driver" where
  "tables_driver names config q =
     Session (Inr \<lparr> description = Some [''Tables_in_d''],
                    fetchall = Inr (map (\<lambda>t. [CStr t]) names),
                    rowcount = int (length names),
                    commit = None \<rparr>) None"

definition connected_state :: connection_state where
  "connected_state =
     \<lparr> is_connected = True, last_error = None,
       connection_details =
         Some \<lparr> d_host = PStr ''localhost'', d_port = 3306, d_user = PStr ''u'',
                d_database = PStr ''d'' \<rparr> \<rparr>"

text \<open>
  The property of \<^verbatim>\<open>CONNECTION_STATE\<close> that every operation keeps: while connected,
  the details are there and no error is recorded.
\<close>

definition connected_inv :: "connection_state \<Rightarrow> bool" where
  "connected_inv st =
     (is_connected st \<longrightarrow> connection_details st \<noteq> None \<and> last_error st = None)"

text \<open>
  The interpreter of the concrete inputs, with the default limit of 4300 digits. Every
  text in the concrete inputs is ASCII and short, and there every interpreter gives
  the same results (\<open>strip_any_python\<close>, \<open>upper_any_python\<close> and
  \<open>py_int_any_python\<close> below), so its three functions for other text are never
  asked; they are filled with \<^verbatim>\<open>int\<close> refusing and \<^verbatim>\<open>strip\<close> and
  \<^verbatim>\<open>upper\<close> changing nothing, and say nothing about Python on such text.
\<close>

definition ascii_python :: python where
  "ascii_python =
     \<lparr> max_str_digits = 4300, int_unicode = (\<lambda>s. None),
       strip_unicode = (\<lambda>s. s), upper_unicode = (\<lambda>s. s) \<rparr>"

section \<open>Evaluation and invariant lemmas\<close>

lemma py_int_3306: "py_int py ''3306'' = Inr 3306"
  by (simp add: py_int_def is_ascii_def int_ascii_def int_strip_def int_space_def
      parse_unsigned_def over_digit_limit_def is_digit_def digit_val_def)

lemma py_int_5: "py_int py ''5'' = Inr 5"
  by (simp add: py_int_def is_ascii_def int_ascii_def int_strip_def int_space_def
      parse_unsigned_def over_digit_limit_def is_digit_def digit_val_def)

lemma py_int_abc: "py_int py ''abc'' = Inl (IntLiteralError ''abc'')"
  by (simp add: py_int_def is_ascii_def int_ascii_def int_strip_def int_space_def
      parse_unsigned_def over_digit_limit_def is_digit_def digit_val_def)

text \<open>
  On ASCII text every interpreter gives the same \<^verbatim>\<open>strip\<close> and \<^verbatim>\<open>upper\<close>, and
  the same \<^verbatim>\<open>int\<close> of a text of at most 640 characters.
\<close>

lemma strip_any_python: "is_ascii s \<Longrightarrow> strip py s = strip py' s"
  by (simp add: strip_def)

lemma upper_any_python: "is_ascii s \<Longrightarrow> upper py s = upper py' s"
  by (simp add: upper_def)

lemma over_digit_limit_short: "length s \<le> 640 \<Longrightarrow> over_digit_limit py s = False"
proof -
  assume "length s \<le> 640"
  then have "length (filter is_digit s) \<le> 640"
    by (rule le_trans [OF length_filter_le])
  then have "\<not> 640 < length (filter is_digit s)"
    by simp
  then show ?thesis
    by (simp add: over_digit_limit_def Let_def)
qed

lemma parse_unsigned_any_python:
  assumes "length s \<le> 640"
  shows "parse_unsigned py s = parse_unsigned py' s"
proof -
  have e: "over_digit_limit py s = over_digit_limit py' s"
    using assms by (simp add: over_digit_limit_short)
  show ?thesis
    unfolding parse_unsigned_def e by (rule refl)
qed

lemma length_int_strip: "length (int_strip s) \<le> length s"
proof -
  have "length (dropWhile int_space (rev (dropWhile int_space s)))
          \<le> length (rev (dropWhile int_space s))"
    by (rule length_dropWhile_le)
  then have "length (int_strip s) \<le> length (dropWhile int_space s)"
    by (simp add: int_strip_def)
  also have "\<dots> \<le> length s"
    by (rule length_dropWhile_le)
  finally show ?thesis .
qed

lemma py_int_any_python:
  assumes "is_ascii s" and "length s \<le> 640"
  shows "py_int py s = py_int py' s"
proof -
  have "int_ascii py s = int_ascii py' s"
  proof (cases "int_strip s")
    case Nil
    then show ?thesis by (simp add: int_ascii_def)
  next
    case (Cons c cs)
    with length_int_strip [of s] assms(2) have "length (c # cs) \<le> 640"
      by simp
    then have "parse_unsigned py (c # cs) = parse_unsigned py' (c # cs)"
      and "parse_unsigned py cs = parse_unsigned py' cs"
      by (auto intro: parse_unsigned_any_python)
    with Cons show ?thesis by (simp add: int_ascii_def)
  qed
  with assms(1) show ?thesis by (simp add: py_int_def)
qed

lemma example_config_ok: "get_db_config py example_env = Inr example_config"
  by (simp add: get_db_config_def example_env_def example_config_def getenv_def env_truthy_def py_int_3306 py_int_5)

lemma list_resources_end_inv:
  "connected_inv st \<Longrightarrow> connected_inv (snd (list_resources_end st r))"
  by (cases "(st, r)" rule: list_resources_end.cases) (simp_all add: connected_inv_def)

lemma read_resource_end_inv:
  "connected_inv st \<Longrightarrow> connected_inv (snd (read_resource_end st r))"
  by (cases "(st, r)" rule: read_resource_end.cases) (simp_all add: connected_inv_def)

lemma execute_end_inv:
  "connected_inv st \<Longrightarrow> connected_inv (snd (execute_end st r))"
  by (cases "(st, r)" rule: execute_end.cases) (simp_all add: connected_inv_def)

lemma connect_except_inv:
  "connected_inv st \<Longrightarrow> connected_inv (snd (connect_except st e))"
  by (cases "(st, e)" rule: connect_except.cases) (simp_all add: connected_inv_def)

lemma set_connected_inv: "connected_inv (set_connected config st)"
  by (simp add: connected_inv_def set_connected_def)

lemma list_resources_inv:
  "connected_inv st \<Longrightarrow> connected_inv (state_after (list_resources py env drv st))"
  using list_resources_end_inv
  by (auto simp: list_resources_def Let_def split: sum.splits prod.splits) (metis snd_conv)

lemma read_resource_inv:
  "connected_inv st \<Longrightarrow> connected_inv (state_after (read_resource py env drv uri_str st))"
  using read_resource_end_inv
  by (auto simp: read_resource_def Let_def split: sum.splits prod.splits) (metis snd_conv)

lemma execute_sql_inv:
  "connected_inv st \<Longrightarrow> connected_inv (state_after (execute_sql py env drv arguments st))"
  using execute_end_inv
  by (auto simp: execute_sql_def Let_def split: sum.splits prod.splits) (metis snd_conv)

lemma connect_tool_inv:
  "connected_inv st \<Longrightarrow> connected_inv (state_after (connect_tool py env drv arguments st))"
  using connect_except_inv set_connected_inv
  by (auto simp: connect_tool_def Let_def split: sum.splits prod.splits session.splits option.splits)
     (metis snd_conv)+

lemma call_tool_inv:
  "connected_inv st \<Longrightarrow> connected_inv (state_after (call_tool py env drv name arguments st))"
  by (simp add: call_tool_def connect_tool_inv execute_sql_inv) (simp add: connected_inv_def)

lemma handle_inv: "connected_inv st \<Longrightarrow> connected_inv (handle py env drv rq st)"
  by (cases rq) (simp_all add: list_resources_inv read_resource_inv call_tool_inv)

lemma run_inv: "connected_inv st \<Longrightarrow> connected_inv (run py steps st)"
  by (induction steps arbitrary: st) (auto simp: handle_inv)

lemma initial_inv: "connected_inv initial_state"
  by (simp add: connected_inv_def initial_state_def)

lemma connected_state_eq:
  "state_after (call_tool py example_env example_driver ''connect'' Map.empty initial_state)
     = connected_state"
  by (simp add: call_tool_def connect_tool_def example_config_ok apply_overrides_def
      example_driver_def set_connected_def example_config_def connected_state_def
      initial_state_def)

section \<open>The operations of the dispatcher\<close>

text \<open>
  C4. An \<^verbatim>\<open>execute_sql\<close> call made while \<^verbatim>\<open>is_connected\<close> is false returns exactly
  the text \<^verbatim>\<open>Not connected to MySQL. Please use the 'connect' tool first.\<close>, opens
  no database connection, and leaves \<^verbatim>\<open>CONNECTION_STATE\<close> as it was.
\<close>

theorem execute_sql_not_connected:
  "\<not> is_connected st \<Longrightarrow>
   call_tool py env drv ''execute_sql'' arguments st =
     \<lparr> returned = Inr (reply ''Not connected to MySQL. Please use the 'connect' tool first.''),
       state_after = st, db_calls = [] \<rparr>"
  by (simp add: call_tool_def execute_sql_def)

theorem execute_sql_not_connected_witness:
  "\<not> is_connected initial_state \<and>
   call_tool ascii_python example_env example_driver ''execute_sql''
       [''query'' \<mapsto> PStr ''SELECT * FROM t''] initial_state =
     \<lparr> returned = Inr [TextContent ''text''
                         ''Not connected to MySQL. Please use the 'connect' tool first.''],
       state_after = initial_state, db_calls = [] \<rparr>"
proof -
  have h: "\<not> is_connected initial_state"
    by (simp add: initial_state_def)
  show "\<not> is_connected initial_state \<and>
   call_tool ascii_python example_env example_driver ''execute_sql''
       [''query'' \<mapsto> PStr ''SELECT * FROM t''] initial_state =
     \<lparr> returned = Inr [TextContent ''text''
                         ''Not connected to MySQL. Please use the 'connect' tool first.''],
       state_after = initial_state, db_calls = [] \<rparr>"
    using h execute_sql_not_connected [OF h, of ascii_python example_env example_driver
        "[''query'' \<mapsto> PStr ''SELECT * FROM t'']"]
    by (simp add: reply_def)
qed

text \<open>
  C5. From every state, \<^verbatim>\<open>disconnect\<close> returns the text
  \<^verbatim>\<open>Disconnected from MySQL.\<close> (it never raises) and leaves \<^verbatim>\<open>is_connected\<close>
  false and \<^verbatim>\<open>last_error\<close> null.
\<close>

theorem disconnect_always_succeeds:
  "returned (call_tool py env drv ''disconnect'' arguments st)
     = Inr (reply ''Disconnected from MySQL.'')
   \<and> is_connected (state_after (call_tool py env drv ''disconnect'' arguments st)) = False
   \<and> last_error (state_after (call_tool py env drv ''disconnect'' arguments st)) = None"
  by (simp add: call_tool_def)

theorem disconnect_always_succeeds_witness:
  "returned (call_tool ascii_python example_env example_driver ''disconnect'' Map.empty
        connected_state)
     = Inr [TextContent ''text'' ''Disconnected from MySQL.'']
   \<and> is_connected (state_after
         (call_tool ascii_python example_env example_driver ''disconnect'' Map.empty connected_state))
       = False
   \<and> last_error (state_after
         (call_tool ascii_python example_env example_driver ''disconnect'' Map.empty connected_state))
       = None"
  using disconnect_always_succeeds [of _ example_env example_driver Map.empty connected_state]
  by (simp add: reply_def)

text \<open>
  C9. \<^verbatim>\<open>connection_status\<close> never changes \<^verbatim>\<open>CONNECTION_STATE\<close>: from every
  state, the state after the call is the state before it, field by field, and no
  database connection is opened. It never fails: in every state that a sequence of
  operations can reach from the initial one, it returns a text.
\<close>

theorem connection_status_read_only:
  "state_after (call_tool py env drv ''connection_status'' arguments st) = st
   \<and> db_calls (call_tool py env drv ''connection_status'' arguments st) = []
   \<and> (\<exists>t. returned (call_tool py env drv ''connection_status'' arguments
                      (run py steps initial_state)) = Inr (reply t))"
proof -
  have "connected_inv (run py steps initial_state)"
    by (rule run_inv [OF initial_inv])
  then show ?thesis
    by (auto simp: call_tool_def connection_status_def connected_inv_def)
qed

theorem connection_status_read_only_witness:
  "state_after (call_tool ascii_python example_env example_driver ''connection_status'' Map.empty
      connected_state) = connected_state
   \<and> db_calls (call_tool ascii_python example_env example_driver ''connection_status'' Map.empty
      connected_state) = []
   \<and> (\<exists>t. returned (call_tool ascii_python example_env example_driver ''connection_status'' Map.empty
              (run ascii_python [(example_env, example_driver, CallTool ''connect'' Map.empty)]
                 initial_state))
            = Inr [TextContent ''text'' t])"
  using connection_status_read_only [of _ example_env example_driver Map.empty connected_state
          "[(example_env, example_driver, CallTool ''connect'' Map.empty)]"]
  by (simp add: reply_def)

text \<open>
  C10. In \<^verbatim>\<open>execute_sql\<close> the test of the connection comes before the test of the
  argument: when the \<^verbatim>\<open>query\<close> argument is missing or empty, the call returns the
  not-connected text if \<^verbatim>\<open>is_connected\<close> is false, and raises
  \<^verbatim>\<open>ValueError("Query is required")\<close> only if \<^verbatim>\<open>is_connected\<close> is true.
\<close>

theorem execute_sql_check_order:
  "\<not> (case arguments ''query'' of None \<Rightarrow> False | Some query \<Rightarrow> truthy query) \<Longrightarrow>
   returned (call_tool py env drv ''execute_sql'' arguments st) =
     (if is_connected st then Inl (ValueError ''Query is required'')
      else Inr (reply ''Not connected to MySQL. Please use the 'connect' tool first.''))"
  by (simp add: call_tool_def execute_sql_def)

theorem execute_sql_check_order_witness:
  "returned (call_tool ascii_python example_env example_driver ''execute_sql'' Map.empty initial_state) =
     Inr [TextContent ''text'' ''Not connected to MySQL. Please use the 'connect' tool first.'']
   \<and> returned (call_tool ascii_python example_env example_driver ''execute_sql''
        [''query'' \<mapsto> PStr ''''] initial_state) =
     Inr [TextContent ''text'' ''Not connected to MySQL. Please use the 'connect' tool first.'']
   \<and> returned (call_tool ascii_python example_env example_driver ''execute_sql'' Map.empty
        connected_state) =
     Inl (ValueError ''Query is required'')
   \<and> returned (call_tool ascii_python example_env example_driver ''execute_sql''
        [''query'' \<mapsto> PStr ''''] connected_state) =
     Inl (ValueError ''Query is required'')"
  using execute_sql_check_order [of Map.empty _ example_env example_driver initial_state]
        execute_sql_check_order [of "[''query'' \<mapsto> PStr '''']" _ example_env example_driver
          initial_state]
        execute_sql_check_order [of Map.empty _ example_env example_driver connected_state]
        execute_sql_check_order [of "[''query'' \<mapsto> PStr '''']" _ example_env example_driver
          connected_state]
  by (simp add: reply_def initial_state_def connected_state_def)

section \<open>The state invariant\<close>

text \<open>
  C1, as stated: after every dispatched operation, \<^verbatim>\<open>connection_details\<close> is
  non-null if and only if \<^verbatim>\<open>is_connected\<close> is true. This fails: \<^verbatim>\<open>disconnect\<close>
  (like every handler of an \<^verbatim>\<open>OperationalError\<close>) sets \<^verbatim>\<open>is_connected\<close> to false
  and leaves \<^verbatim>\<open>connection_details\<close> as the last successful \<^verbatim>\<open>connect\<close> set it.
\<close>

theorem details_iff_connected_counterexample:
  "\<not> (connection_details
          (run ascii_python [(example_env, example_driver, CallTool ''connect'' Map.empty),
                (example_env, example_driver, CallTool ''disconnect'' Map.empty)]
             initial_state) \<noteq> None
        \<longleftrightarrow>
        is_connected
          (run ascii_python [(example_env, example_driver, CallTool ''connect'' Map.empty),
                (example_env, example_driver, CallTool ''disconnect'' Map.empty)]
             initial_state))"
  by (simp add: connected_state_eq) (simp add: call_tool_def connected_state_def)

text \<open>
  C1, amended: after every sequence of dispatched operations (\<^verbatim>\<open>list_resources\<close>,
  \<^verbatim>\<open>read_resource\<close> and the four tools, each with any environment, any database
  behaviour and any arguments) from the initial state, if \<^verbatim>\<open>is_connected\<close> is true
  then \<^verbatim>\<open>connection_details\<close> is non-null and \<^verbatim>\<open>last_error\<close> is null.
\<close>

theorem connected_implies_details:
  "is_connected (run py steps initial_state) \<longrightarrow>
     connection_details (run py steps initial_state) \<noteq> None
     \<and> last_error (run py steps initial_state) = None"
  using run_inv [OF initial_inv, of py steps] by (simp add: connected_inv_def)

theorem connected_implies_details_witness:
  "is_connected
     (run ascii_python [(example_env, example_driver, CallTool ''connect'' Map.empty)] initial_state)
   \<and> connection_details
       (run ascii_python [(example_env, example_driver, CallTool ''connect'' Map.empty)] initial_state)
       \<noteq> None
   \<and> last_error
       (run ascii_python [(example_env, example_driver, CallTool ''connect'' Map.empty)] initial_state)
       = None"
proof -
  have h: "is_connected
      (run ascii_python [(example_env, example_driver, CallTool ''connect'' Map.empty)] initial_state)"
    by (simp add: connected_state_eq) (simp add: connected_state_def)
  show "is_connected
     (run ascii_python [(example_env, example_driver, CallTool ''connect'' Map.empty)] initial_state)
   \<and> connection_details
       (run ascii_python [(example_env, example_driver, CallTool ''connect'' Map.empty)] initial_state)
       \<noteq> None
   \<and> last_error
       (run ascii_python [(example_env, example_driver, CallTool ''connect'' Map.empty)] initial_state)
       = None"
    using h connected_implies_details
      [of ascii_python "[(example_env, example_driver, CallTool ''connect'' Map.empty)]"]
    by blast
qed

section \<open>The configuration loader's checks\<close>

text \<open>
  C8, as stated: the loader raises if and only if user, password or database is absent
  or empty, validates nothing else, and otherwise returns a configuration. This fails:
  with the three required settings present and \<^verbatim>\<open>MYSQL_PORT=abc\<close>, \<^verbatim>\<open>int\<close> raises and
  no configuration is returned; and with them absent and \<^verbatim>\<open>MYSQL_PORT=abc\<close>, the
  exception is that of \<^verbatim>\<open>int\<close>, not the missing-configuration one.
\<close>

theorem get_db_config_counterexample:
  "env_truthy ((example_env(''MYSQL_PORT'' \<mapsto> ''abc'')) ''MYSQL_USER'')
   \<and> env_truthy ((example_env(''MYSQL_PORT'' \<mapsto> ''abc'')) ''MYSQL_PASSWORD'')
   \<and> env_truthy ((example_env(''MYSQL_PORT'' \<mapsto> ''abc'')) ''MYSQL_DATABASE'')
   \<and> get_db_config ascii_python (example_env(''MYSQL_PORT'' \<mapsto> ''abc''))
       = Inl (IntLiteralError ''abc'')
   \<and> get_db_config ascii_python [''MYSQL_PORT'' \<mapsto> ''abc'']
       = Inl (IntLiteralError ''abc'')"
  by (simp add: get_db_config_def getenv_def example_env_def env_truthy_def py_int_abc)

lemma env_truthy_iff: "env_truthy v \<longleftrightarrow> v \<noteq> None \<and> v \<noteq> Some []"
  by (simp add: env_truthy_def split: option.splits)

text \<open>
  C8, amended: when \<^verbatim>\<open>MYSQL_PORT\<close> and \<^verbatim>\<open>MYSQL_CONNECTION_TIMEOUT\<close> are each unset
  or hold a text that \<^verbatim>\<open>int\<close> accepts, the loader raises, and then raises the
  missing-configuration error, if and only if user, password or database is absent or
  empty; otherwise it returns a configuration with the three settings as given, host
  \<^verbatim>\<open>localhost\<close>, port 3306, charset \<^verbatim>\<open>utf8\<close> and timeout 5 where the variable is
  unset.
\<close>

theorem get_db_config_required_only:
  assumes "py_int py (getenv env ''MYSQL_PORT'' ''3306'') = Inr p"
    and "py_int py (getenv env ''MYSQL_CONNECTION_TIMEOUT'' ''5'') = Inr t"
  shows "(get_db_config py env = Inl (ValueError ''Missing required database configuration'')
            \<longleftrightarrow> env ''MYSQL_USER'' \<in> {None, Some []} \<or> env ''MYSQL_PASSWORD'' \<in> {None, Some []}
                \<or> env ''MYSQL_DATABASE'' \<in> {None, Some []})
       \<and> ((\<exists>e. get_db_config py env = Inl e)
            \<longleftrightarrow> env ''MYSQL_USER'' \<in> {None, Some []} \<or> env ''MYSQL_PASSWORD'' \<in> {None, Some []}
                \<or> env ''MYSQL_DATABASE'' \<in> {None, Some []})
       \<and> (\<forall>config. get_db_config py env = Inr config \<longrightarrow>
             Some (user config) = map_option PStr (env ''MYSQL_USER'')
           \<and> Some (password config) = map_option PStr (env ''MYSQL_PASSWORD'')
           \<and> Some (database config) = map_option PStr (env ''MYSQL_DATABASE'')
           \<and> host config = PStr (case env ''MYSQL_HOST'' of None \<Rightarrow> ''localhost'' | Some h \<Rightarrow> h)
           \<and> charset config = (case env ''MYSQL_CHARSET'' of None \<Rightarrow> ''utf8'' | Some c \<Rightarrow> c)
           \<and> port config = p \<and> connection_timeout config = t
           \<and> (env ''MYSQL_PORT'' = None \<longrightarrow> port config = 3306)
           \<and> (env ''MYSQL_CONNECTION_TIMEOUT'' = None \<longrightarrow> connection_timeout config = 5))"
proof -
  have p: "env ''MYSQL_PORT'' = None \<Longrightarrow> p = 3306"
    using assms(1) by (simp add: getenv_def py_int_3306)
  have t: "env ''MYSQL_CONNECTION_TIMEOUT'' = None \<Longrightarrow> t = 5"
    using assms(2) by (simp add: getenv_def py_int_5)
  have eq: "get_db_config py env =
      (if env_truthy (env ''MYSQL_USER'') \<and> env_truthy (env ''MYSQL_PASSWORD'')
            \<and> env_truthy (env ''MYSQL_DATABASE'')
       then Inr \<lparr> host = PStr (case env ''MYSQL_HOST'' of None \<Rightarrow> ''localhost'' | Some h \<Rightarrow> h),
                  port = p,
                  user = PStr (the (env ''MYSQL_USER'')),
                  password = PStr (the (env ''MYSQL_PASSWORD'')),
                  database = PStr (the (env ''MYSQL_DATABASE'')),
                  charset = (case env ''MYSQL_CHARSET'' of None \<Rightarrow> ''utf8'' | Some c \<Rightarrow> c),
                  connection_timeout = t,
                  get_warnings = True \<rparr>
       else Inl (ValueError ''Missing required database configuration''))"
    unfolding get_db_config_def assms by (simp add: getenv_def)
  show ?thesis
    unfolding eq env_truthy_iff using p t by auto
qed

theorem get_db_config_required_only_witness:
  "py_int ascii_python (getenv example_env ''MYSQL_PORT'' ''3306'') = Inr 3306
   \<and> py_int ascii_python (getenv example_env ''MYSQL_CONNECTION_TIMEOUT'' ''5'') = Inr 5
   \<and> (\<exists>config. get_db_config ascii_python example_env = Inr config
        \<and> host config = PStr ''localhost'' \<and> port config = 3306 \<and> user config = PStr ''u''
        \<and> password config = PStr ''p'' \<and> database config = PStr ''d''
        \<and> charset config = ''utf8'' \<and> connection_timeout config = 5)
   \<and> get_db_config ascii_python (example_env(''MYSQL_USER'' \<mapsto> []))
       = Inl (ValueError ''Missing required database configuration'')
   \<and> py_int ascii_python
        (getenv (example_env(''MYSQL_PORT'' \<mapsto> '' 33_07 '')) ''MYSQL_PORT'' ''3306'') = Inr 3307
   \<and> (\<exists>config. get_db_config ascii_python (example_env(''MYSQL_PORT'' \<mapsto> '' 33_07 ''))
          = Inr config \<and> port config = 3307)"
proof -
  let ?py = ascii_python
  have a: "py_int ?py (getenv example_env ''MYSQL_PORT'' ''3306'') = Inr 3306"
    by (simp add: getenv_def example_env_def py_int_3306)
  have b: "py_int ?py (getenv example_env ''MYSQL_CONNECTION_TIMEOUT'' ''5'') = Inr 5"
    by (simp add: getenv_def example_env_def py_int_5)
  have a': "py_int ?py (getenv (example_env(''MYSQL_USER'' \<mapsto> [])) ''MYSQL_PORT'' ''3306'')
      = Inr 3306"
    by (simp add: getenv_def example_env_def py_int_3306)
  have b': "py_int ?py
      (getenv (example_env(''MYSQL_USER'' \<mapsto> [])) ''MYSQL_CONNECTION_TIMEOUT'' ''5'') = Inr 5"
    by (simp add: getenv_def example_env_def py_int_5)
  have a'': "py_int ?py
      (getenv (example_env(''MYSQL_PORT'' \<mapsto> '' 33_07 '')) ''MYSQL_PORT'' ''3306'') = Inr 3307"
    by (simp add: getenv_def py_int_def is_ascii_def int_ascii_def int_strip_def int_space_def
        parse_unsigned_def over_digit_limit_def is_digit_def digit_val_def)
  have b'': "py_int ?py
      (getenv (example_env(''MYSQL_PORT'' \<mapsto> '' 33_07 '')) ''MYSQL_CONNECTION_TIMEOUT'' ''5'')
      = Inr 5"
    by (simp add: getenv_def example_env_def py_int_5)
  have c: "get_db_config ?py (example_env(''MYSQL_USER'' \<mapsto> []))
      = Inl (ValueError ''Missing required database configuration'')"
    using get_db_config_required_only [OF a' b'] by simp
  have "\<not> (\<exists>e. get_db_config ?py example_env = Inl e)"
    using get_db_config_required_only [OF a b] by (simp add: example_env_def)
  then obtain config where d: "get_db_config ?py example_env = Inr config"
    by (cases "get_db_config ?py example_env") auto
  have d': "host config = PStr ''localhost'' \<and> port config = 3306 \<and> user config = PStr ''u''
        \<and> password config = PStr ''p'' \<and> database config = PStr ''d''
        \<and> charset config = ''utf8'' \<and> connection_timeout config = 5"
    using get_db_config_required_only [OF a b] d by (simp add: example_env_def)
  have "\<not> (\<exists>e. get_db_config ?py (example_env(''MYSQL_PORT'' \<mapsto> '' 33_07 '')) = Inl e)"
    using get_db_config_required_only [OF a'' b''] by (simp add: example_env_def)
  then obtain config' where
    e: "get_db_config ?py (example_env(''MYSQL_PORT'' \<mapsto> '' 33_07 '')) = Inr config'"
    by (cases "get_db_config ?py (example_env(''MYSQL_PORT'' \<mapsto> '' 33_07 ''))") auto
  have e': "port config' = 3307"
    using get_db_config_required_only [OF a'' b''] e by simp
  from a b c d d' a'' e e' show ?thesis by blast
qed

lemma py_int_unicode:
  "\<not> is_ascii s \<Longrightarrow>
   py_int py s = (case int_unicode py s of None \<Rightarrow> Inl (IntLiteralError s) | Some i \<Rightarrow> Inr i)"
  by (simp add: py_int_def)

section \<open>Running statements\<close>

lemma startswith_nonempty: "startswith (upper py (strip py q)) (c # p) \<Longrightarrow> q \<noteq> []"
  by (auto simp: startswith_def upper_def strip_def strip_ascii_def is_ascii_def)

lemma select_not_show_tables:
  assumes "startswith s ''SELECT''"
  shows "\<not> startswith s ''SHOW TABLES''"
proof (cases s)
  case Nil
  then show ?thesis by (simp add: startswith_def)
next
  case (Cons a s')
  with assms show ?thesis by (cases s') (auto simp: startswith_def)
qed

lemma str_int_1: "str_int 1 = ''1''"
  by (simp add: str_int_def str_nat.simps digit_char_def)

lemma str_int_2: "str_int 2 = ''2''"
  by (simp add: str_int_def str_nat.simps digit_char_def)

lemma example_rows_text:
  "format_rows example_cursor = Inr (''a,b'' @ [CHR 0x0A] @ ''1,x'' @ [CHR 0x0A] @ ''2,y'')"
  by (simp add: format_rows_def example_cursor_def str_int_1 str_int_2)

text \<open>
  C6, as stated: every statement whose stripped text starts with \<^verbatim>\<open>SELECT\<close> in any
  case, run while connected, gives the header line and the row lines. This fails for a
  statement that starts with \<^verbatim>\<open>SELECT\<close> and has no result set: after
  \<^verbatim>\<open>SELECT 1 INTO @x\<close> the cursor's \<^verbatim>\<open>description\<close> is \<^verbatim>\<open>None\<close>, the list
  comprehension over it raises \<^verbatim>\<open>TypeError\<close>, and no handler catches that.
\<close>

theorem select_result_text_counterexample:
  "is_connected connected_state
   \<and> startswith (upper ascii_python (strip ascii_python ''SELECT 1 INTO @x'')) ''SELECT''
   \<and> returned (call_tool ascii_python example_env no_result_driver ''execute_sql''
         [''query'' \<mapsto> PStr ''SELECT 1 INTO @x''] connected_state)
       = Inl (TypeError (CHR 0x27 # ''NoneType' object is not iterable''))"
proof -
  have s: "startswith (upper ascii_python (strip ascii_python ''SELECT 1 INTO @x'')) ''SELECT''"
    by (simp add: startswith_def upper_def strip_def strip_ascii_def is_ascii_def str_space_def
        int_space_def upper_char_def)
  have ns: "\<not> startswith (upper ascii_python (strip ascii_python ''SELECT 1 INTO @x''))
      ''SHOW TABLES''"
    using s by (rule select_not_show_tables)
  have b: "run_session (no_result_driver example_config (PStr ''SELECT 1 INTO @x''))
        (execute_body ascii_python example_config (PStr ''SELECT 1 INTO @x''))
      = Inl (TypeError (CHR 0x27 # ''NoneType' object is not iterable''))"
    using s ns
    by (simp add: run_session_def no_result_driver_def execute_body_def format_rows_def
        no_result_cursor_def)
  have "returned (call_tool ascii_python example_env no_result_driver ''execute_sql''
         [''query'' \<mapsto> PStr ''SELECT 1 INTO @x''] connected_state)
       = Inl (TypeError (CHR 0x27 # ''NoneType' object is not iterable''))"
    by (simp add: call_tool_def execute_sql_def connected_state_def example_config_ok b)
  with s show ?thesis by (simp add: connected_state_def)
qed

text \<open>
  C6, amended: for every statement whose text, stripped and put in capitals, starts
  with \<^verbatim>\<open>SELECT\<close>, run by \<^verbatim>\<open>execute_sql\<close> while connected, with a configuration
  that loads, on a database that runs it with a result set (the cursor has a
  \<^verbatim>\<open>description\<close>, \<^verbatim>\<open>fetchall\<close> returns the rows, and cursor and connection close
  without an exception), the result text is the column names joined by commas as a
  header line, followed by one line per row of the cells' \<^verbatim>\<open>str\<close> joined by commas,
  the lines joined by line feeds, with no escaping or quoting of the cells. For the
  table \<open>t\<close> with columns \<open>(a, b)\<close> and rows \<open>(1, x)\<close>, \<open>(2, y)\<close> the text is exactly
  \<^verbatim>\<open>a,b\<close>, \<^verbatim>\<open>1,x\<close>, \<^verbatim>\<open>2,y\<close> on three lines.
\<close>

theorem select_result_text:
  assumes "is_connected st"
    and "arguments ''query'' = Some (PStr q)"
    and "startswith (upper py (strip py q)) ''SELECT''"
    and "get_db_config py env = Inr config"
    and "drv config (PStr q) = Session (Inr cur) None"
    and "description cur = Some columns"
    and "fetchall cur = Inr rows"
  shows "call_tool py env drv ''execute_sql'' arguments st =
           \<lparr> returned =
               Inr (reply (join [CHR 0x0A]
                  (join '','' columns # map (\<lambda>row. join '','' (map str_cell row)) rows))),
             state_after = st,
             db_calls = [(config, PStr q)] \<rparr>"
proof -
  have q: "q \<noteq> []"
    using assms(3) by (rule startswith_nonempty)
  have ns: "\<not> startswith (upper py (strip py q)) ''SHOW TABLES''"
    using assms(3) by (rule select_not_show_tables)
  have body: "run_session (drv config (PStr q)) (execute_body py config (PStr q)) =
      Inr (join [CHR 0x0A] (join '','' columns # map (\<lambda>row. join '','' (map str_cell row)) rows))"
    using assms(3) ns
    by (simp add: assms(5,6,7) run_session_def execute_body_def format_rows_def)
  show ?thesis
    by (simp add: call_tool_def execute_sql_def assms(1,2,4) q body)
qed

theorem select_result_text_witness:
  "call_tool ascii_python example_env example_driver ''execute_sql''
       [''query'' \<mapsto> PStr ([CHR 0x0A] @ ''  Select * from t '' @ [CHR 0x09])] connected_state
     = \<lparr> returned =
           Inr [TextContent ''text'' (''a,b'' @ [CHR 0x0A] @ ''1,x'' @ [CHR 0x0A] @ ''2,y'')],
         state_after = connected_state,
         db_calls = [(example_config, PStr ([CHR 0x0A] @ ''  Select * from t '' @ [CHR 0x09]))] \<rparr>"
proof -
  let ?q = "[CHR 0x0A] @ ''  Select * from t '' @ [CHR 0x09]"
  have 1: "is_connected connected_state"
    by (simp add: connected_state_def)
  have 2: "[''query'' \<mapsto> PStr ?q] ''query'' = Some (PStr ?q)"
    by simp
  have 3: "startswith (upper ascii_python (strip ascii_python ?q)) ''SELECT''"
    by (simp add: startswith_def upper_def strip_def strip_ascii_def is_ascii_def str_space_def
        int_space_def upper_char_def)
  have 5: "example_driver example_config (PStr ?q) = Session (Inr example_cursor) None"
    by (simp add: example_driver_def)
  have 6: "description example_cursor = Some [''a'', ''b'']"
    by (simp add: example_cursor_def)
  have 7: "fetchall example_cursor = Inr [[CInt 1, CStr ''x''], [CInt 2, CStr ''y'']]"
    by (simp add: example_cursor_def)
  show ?thesis
    using select_result_text [where arguments = "[''query'' \<mapsto> PStr ?q]"
        and drv = example_driver, OF 1 2 3 example_config_ok 5 6 7]
    by (simp add: reply_def str_int_1 str_int_2)
qed

lemma select_cells_unquoted:
  "format_rows \<lparr> description = Some [''a'', ''b'', ''c''],
       fetchall = Inr [[CInt 1, CStr ''x,y'', CObject ''Decimal'' ''1.50'' None],
                       [CNull, CStr [], CObject ''bytes'' (''b'' @ [CHR 0x27] @ ''z'' @ [CHR 0x27])
                          (Some ''z'')]],
       rowcount = 2, commit = None \<rparr>
     = Inr (''a,b,c'' @ [CHR 0x0A] @ ''1,x,y,1.50'' @ [CHR 0x0A] @ ''None,,b'' @ [CHR 0x27]
            @ ''z'' @ [CHR 0x27])"
  by (simp add: format_rows_def str_int_1)

lemma execute_end_returned: "fst (execute_end st r) = fst (execute_end st' r)"
  by (cases "(st, r)" rule: execute_end.cases) simp_all

text \<open>
  C3. Every \<^verbatim>\<open>execute_sql\<close> call made while connected, with a query, takes its
  configuration from \<^verbatim>\<open>get_db_config\<close>, that is from the environment alone: when
  that raises, the call raises the same and opens no connection; otherwise the driver
  is asked to connect with exactly that configuration and to run the query, and what
  the call returns and the state it leaves are what the handlers make of the driver's
  answer to that. The state before the call, and with it whatever host, port, user,
  password or database an earlier \<^verbatim>\<open>connect\<close> call was given and stored in
  \<^verbatim>\<open>connection_details\<close>, has no part in the configuration and none in what is
  returned.
\<close>

theorem execute_sql_uses_environment_config:
  assumes "is_connected st"
    and "arguments ''query'' = Some query"
    and "truthy query"
  shows "call_tool py env drv ''execute_sql'' arguments st =
           (case get_db_config py env of
              Inl e \<Rightarrow> \<lparr> returned = Inl e, state_after = st, db_calls = [] \<rparr>
            | Inr config \<Rightarrow>
                \<lparr> returned = fst (execute_end st
                     (run_session (drv config query) (execute_body py config query))),
                  state_after = snd (execute_end st
                     (run_session (drv config query) (execute_body py config query))),
                  db_calls = [(config, query)] \<rparr>)
       \<and> (\<forall>st'. is_connected st' \<longrightarrow>
             returned (call_tool py env drv ''execute_sql'' arguments st')
               = returned (call_tool py env drv ''execute_sql'' arguments st))"
proof -
  have eq: "call_tool py env drv ''execute_sql'' arguments s =
           (case get_db_config py env of
              Inl e \<Rightarrow> \<lparr> returned = Inl e, state_after = s, db_calls = [] \<rparr>
            | Inr config \<Rightarrow>
                \<lparr> returned = fst (execute_end s
                     (run_session (drv config query) (execute_body py config query))),
                  state_after = snd (execute_end s
                     (run_session (drv config query) (execute_body py config query))),
                  db_calls = [(config, query)] \<rparr>)"
    if "is_connected s" for s
    using that assms(2,3)
    by (simp add: call_tool_def execute_sql_def Let_def split: sum.splits prod.splits)
  have "returned (call_tool py env drv ''execute_sql'' arguments st')
          = returned (call_tool py env drv ''execute_sql'' arguments st)"
    if "is_connected st'" for st'
    unfolding eq [OF that] eq [OF assms(1)]
    using execute_end_returned [of st'] by (simp split: sum.splits)
  with eq [OF assms(1)] show ?thesis by blast
qed

theorem execute_sql_uses_environment_config_witness:
  "db_calls (call_tool ascii_python example_env example_driver ''connect''
       [''host'' \<mapsto> PStr ''db.example'', ''port'' \<mapsto> PInt 3307, ''user'' \<mapsto> PStr ''root'',
        ''password'' \<mapsto> PStr ''pw'', ''database'' \<mapsto> PStr ''other''] initial_state)
     = [(\<lparr> host = PStr ''db.example'', port = 3307, user = PStr ''root'', password = PStr ''pw'',
           database = PStr ''other'', charset = ''utf8'', connection_timeout = 5,
           get_warnings = True \<rparr>, PStr ''SELECT 1'')]
   \<and> state_after (call_tool ascii_python example_env example_driver ''connect''
       [''host'' \<mapsto> PStr ''db.example'', ''port'' \<mapsto> PInt 3307, ''user'' \<mapsto> PStr ''root'',
        ''password'' \<mapsto> PStr ''pw'', ''database'' \<mapsto> PStr ''other''] initial_state)
     = \<lparr> is_connected = True, last_error = None,
         connection_details =
           Some \<lparr> d_host = PStr ''db.example'', d_port = 3307, d_user = PStr ''root'',
                  d_database = PStr ''other'' \<rparr> \<rparr>
   \<and> call_tool ascii_python example_env (host_driver ''localhost'') ''execute_sql''
         [''query'' \<mapsto> PStr ''SELECT * FROM t'']
         \<lparr> is_connected = True, last_error = None,
           connection_details =
             Some \<lparr> d_host = PStr ''db.example'', d_port = 3307, d_user = PStr ''root'',
                    d_database = PStr ''other'' \<rparr> \<rparr>
     = \<lparr> returned =
           Inr [TextContent ''text'' (''a,b'' @ [CHR 0x0A] @ ''1,x'' @ [CHR 0x0A] @ ''2,y'')],
         state_after =
           \<lparr> is_connected = True, last_error = None,
             connection_details =
               Some \<lparr> d_host = PStr ''db.example'', d_port = 3307, d_user = PStr ''root'',
                      d_database = PStr ''other'' \<rparr> \<rparr>,
         db_calls = [(example_config, PStr ''SELECT * FROM t'')] \<rparr>
   \<and> call_tool ascii_python example_env (host_driver ''db.example'') ''execute_sql''
         [''query'' \<mapsto> PStr ''SELECT * FROM t'']
         \<lparr> is_connected = True, last_error = None,
           connection_details =
             Some \<lparr> d_host = PStr ''db.example'', d_port = 3307, d_user = PStr ''root'',
                    d_database = PStr ''other'' \<rparr> \<rparr>
     = \<lparr> returned =
           Inr [TextContent ''text''
             ''Connection lost: 2005: Unknown MySQL server host. Please reconnect using the 'connect' tool.''],
         state_after =
           \<lparr> is_connected = False, last_error = Some ''2005: Unknown MySQL server host'',
             connection_details =
               Some \<lparr> d_host = PStr ''db.example'', d_port = 3307, d_user = PStr ''root'',
                      d_database = PStr ''other'' \<rparr> \<rparr>,
         db_calls = [(example_config, PStr ''SELECT * FROM t'')] \<rparr>"
proof -
  let ?args = "[''host'' \<mapsto> PStr ''db.example'', ''port'' \<mapsto> PInt 3307,
        ''user'' \<mapsto> PStr ''root'', ''password'' \<mapsto> PStr ''pw'', ''database'' \<mapsto> PStr ''other'']"
  let ?st = "\<lparr> is_connected = True, last_error = None,
           connection_details =
             Some \<lparr> d_host = PStr ''db.example'', d_port = 3307, d_user = PStr ''root'',
                    d_database = PStr ''other'' \<rparr> \<rparr>"
  let ?q = "PStr ''SELECT * FROM t''"
  have ov: "apply_overrides ascii_python ?args example_config =
      Inr \<lparr> host = PStr ''db.example'', port = 3307, user = PStr ''root'', password = PStr ''pw'',
           database = PStr ''other'', charset = ''utf8'', connection_timeout = 5,
           get_warnings = True \<rparr>"
    by (simp add: apply_overrides_def example_config_def)
  have c: "call_tool ascii_python example_env example_driver ''connect'' ?args initial_state =
      \<lparr> returned = Inr (reply (''Successfully connected to MySQL at '' @
            at_as_database (PStr ''db.example'') 3307 (PStr ''root'') (PStr ''other''))),
        state_after = ?st,
        db_calls = [(\<lparr> host = PStr ''db.example'', port = 3307, user = PStr ''root'',
           password = PStr ''pw'', database = PStr ''other'', charset = ''utf8'',
           connection_timeout = 5, get_warnings = True \<rparr>, PStr ''SELECT 1'')] \<rparr>"
    by (simp add: call_tool_def connect_tool_def example_config_ok ov example_driver_def
        set_connected_def initial_state_def)
  have 1: "is_connected ?st"
    by simp
  have 2: "[''query'' \<mapsto> ?q] ''query'' = Some ?q"
    by simp
  have 3: "truthy ?q"
    by simp
  have sel: "startswith (upper ascii_python (strip ascii_python ''SELECT * FROM t'')) ''SELECT''"
    by (simp add: startswith_def upper_def strip_def strip_ascii_def is_ascii_def str_space_def
        int_space_def upper_char_def)
  have body: "execute_body ascii_python example_config ?q example_cursor
      = Inr (''a,b'' @ [CHR 0x0A] @ ''1,x'' @ [CHR 0x0A] @ ''2,y'')"
    using sel select_not_show_tables [OF sel]
    by (simp add: execute_body_def example_rows_text)
  have good: "run_session (host_driver ''localhost'' example_config ?q)
        (execute_body ascii_python example_config ?q)
      = Inr (''a,b'' @ [CHR 0x0A] @ ''1,x'' @ [CHR 0x0A] @ ''2,y'')"
    using body by (simp add: host_driver_def example_config_def run_session_def)
  have bad: "run_session (host_driver ''db.example'' example_config ?q)
        (execute_body ascii_python example_config ?q)
      = Inl (OperationalError ''2005: Unknown MySQL server host'')"
    by (simp add: host_driver_def example_config_def run_session_def)
  have a: "call_tool ascii_python example_env (host_driver ''localhost'') ''execute_sql''
         [''query'' \<mapsto> ?q] ?st
     = \<lparr> returned =
           Inr [TextContent ''text'' (''a,b'' @ [CHR 0x0A] @ ''1,x'' @ [CHR 0x0A] @ ''2,y'')],
         state_after = ?st,
         db_calls = [(example_config, ?q)] \<rparr>"
    using execute_sql_uses_environment_config [where arguments = "[''query'' \<mapsto> ?q]"
        and py = ascii_python and env = example_env and drv = "host_driver ''localhost''",
        OF 1 2 3]
    by (simp add: example_config_ok good reply_def)
  have b: "call_tool ascii_python example_env (host_driver ''db.example'') ''execute_sql''
         [''query'' \<mapsto> ?q] ?st
     = \<lparr> returned =
           Inr [TextContent ''text''
             ''Connection lost: 2005: Unknown MySQL server host. Please reconnect using the 'connect' tool.''],
         state_after =
           \<lparr> is_connected = False, last_error = Some ''2005: Unknown MySQL server host'',
             connection_details =
               Some \<lparr> d_host = PStr ''db.example'', d_port = 3307, d_user = PStr ''root'',
                      d_database = PStr ''other'' \<rparr> \<rparr>,
         db_calls = [(example_config, ?q)] \<rparr>"
    using execute_sql_uses_environment_config [where arguments = "[''query'' \<mapsto> ?q]"
        and py = ascii_python and env = example_env and drv = "host_driver ''db.example''",
        OF 1 2 3]
    by (simp add: example_config_ok bad reply_def)
  show ?thesis
    using c a b by simp
qed

text \<open>
  C7. When the database work of an \<^verbatim>\<open>execute_sql\<close> or \<^verbatim>\<open>read_resource\<close> call
  made while connected ends in a \<^verbatim>\<open>mysql.connector.Error\<close> that is not an
  \<^verbatim>\<open>OperationalError\<close> (a statement-level failure), the call returns a plain text
  with the error's message instead of raising, and \<^verbatim>\<open>CONNECTION_STATE\<close> is
  unchanged, \<^verbatim>\<open>is_connected\<close> included.
\<close>

theorem statement_error_keeps_state:
  assumes "is_connected st" and "get_db_config py env = Inr config"
  shows "(arguments ''query'' = Some query \<and> truthy query
            \<and> run_session (drv config query) (execute_body py config query) = Inl (Error m)
          \<longrightarrow> call_tool py env drv ''execute_sql'' arguments st =
                \<lparr> returned = Inr (reply (''Error executing query: '' @ m)),
                  state_after = st, db_calls = [(config, query)] \<rparr>)
       \<and> (startswith uri_str ''mysql://''
            \<and> run_session
                 (drv config (PStr (''SELECT * FROM '' @ table_of_uri uri_str @ '' LIMIT 100'')))
                 format_rows = Inl (Error m)
          \<longrightarrow> read_resource py env drv uri_str st =
                \<lparr> returned = Inr (''Error: '' @ m), state_after = st,
                  db_calls = [(config, PStr (''SELECT * FROM '' @ table_of_uri uri_str @ '' LIMIT 100''))] \<rparr>)"
  using assms by (simp add: call_tool_def execute_sql_def read_resource_def)

theorem statement_error_keeps_state_witness:
  "call_tool ascii_python example_env failing_driver ''execute_sql''
       [''query'' \<mapsto> PStr ''SELECT * FROM nope''] connected_state
     = \<lparr> returned = Inr [TextContent ''text''
                         ''Error executing query: 1146 (42S02): no such table''],
         state_after = connected_state,
         db_calls = [(example_config, PStr ''SELECT * FROM nope'')] \<rparr>
   \<and> read_resource ascii_python example_env failing_driver ''mysql://nope/data'' connected_state
     = \<lparr> returned = Inr ''Error: 1146 (42S02): no such table'',
         state_after = connected_state,
         db_calls = [(example_config, PStr ''SELECT * FROM nope LIMIT 100'')] \<rparr>"
proof -
  have 1: "is_connected connected_state"
    by (simp add: connected_state_def)
  have t: "table_of_uri ''mysql://nope/data'' = ''nope''"
    by (simp add: table_of_uri_def)
  have a: "[''query'' \<mapsto> PStr ''SELECT * FROM nope''] ''query'' = Some (PStr ''SELECT * FROM nope'')
      \<and> truthy (PStr ''SELECT * FROM nope'')
      \<and> run_session (failing_driver example_config (PStr ''SELECT * FROM nope''))
            (execute_body ascii_python example_config (PStr ''SELECT * FROM nope''))
          = Inl (Error ''1146 (42S02): no such table'')"
    by (simp add: failing_driver_def run_session_def)
  have b: "startswith ''mysql://nope/data'' ''mysql://''
      \<and> run_session (failing_driver example_config
             (PStr (''SELECT * FROM '' @ table_of_uri ''mysql://nope/data'' @ '' LIMIT 100'')))
           format_rows = Inl (Error ''1146 (42S02): no such table'')"
    by (simp add: failing_driver_def run_session_def startswith_def)
  show ?thesis
    using statement_error_keeps_state [where arguments = "[''query'' \<mapsto> PStr ''SELECT * FROM nope'']"
        and query = "PStr ''SELECT * FROM nope''" and drv = failing_driver
        and m = "''1146 (42S02): no such table''" and uri_str = "''mysql://nope/data''",
        OF 1 example_config_ok] a b
    by (simp add: reply_def t)
qed

section \<open>Table names in resource URIs\<close>

lemma resources_of_names:
  "resources_of (map (\<lambda>t. [CStr t]) names) =
     Inr (map (\<lambda>t. \<lparr> r_uri = ''mysql://'' @ quote t @ ''/data'', r_name = ''Table: '' @ t,
                      r_mimeType = ''text/plain'', r_description = ''Data in table: '' @ t \<rparr>)
            names)"
  by (induction names) simp_all

lemma of_char_div_16: "(of_char (c::char) :: nat) div 16 < 16"
proof -
  have "(of_char c :: nat) mod 256 = of_char c"
    by simp
  then have "(of_char c :: nat) < 256"
    by (metis mod_less_divisor zero_less_numeral)
  then show ?thesis
    by (intro less_mult_imp_div_less) simp
qed

lemma hex_char_not_slash: "d < 16 \<Longrightarrow> hex_char d \<noteq> CHR ''/''"
proof -
  assume "d < 16"
  then have "hex_char d \<in> set ''0123456789ABCDEF''"
    unfolding hex_char_def by (intro nth_mem) simp
  then show ?thesis
    by auto
qed

lemma percent_byte_no_slash: "CHR ''/'' \<notin> set (percent_byte c)"
  using hex_char_not_slash [OF of_char_div_16, of c] hex_char_not_slash [of "of_char c mod 16"]
  by (auto simp: percent_byte_def)

lemma always_safe_not_slash: "always_safe c \<Longrightarrow> CHR ''/'' \<noteq> c"
  by (auto simp: always_safe_def)

lemma percent_encoded_no_slash: "CHR ''/'' \<notin> set (percent_encoded t)"
  by (induction t) (simp_all add: percent_encoded_def percent_byte_no_slash always_safe_not_slash)

lemma quote_percent_encoded: "CHR ''/'' \<notin> set t \<Longrightarrow> quote t = percent_encoded t"
  by (induction t) (auto simp: quote_def percent_encoded_def quote_char_def)

lemma table_of_uri_segment:
  "CHR ''/'' \<notin> set seg \<Longrightarrow> table_of_uri (''mysql://'' @ seg @ ''/data'') = seg"
  by (auto simp: table_of_uri_def takeWhile_tail)

lemma length_percent_encoded: "length t \<le> length (percent_encoded t)"
  by (induction t) (auto simp: percent_encoded_def percent_byte_def)

lemma percent_encoded_Cons:
  "percent_encoded (c # cs) = (if always_safe c then [c] else percent_byte c) @ percent_encoded cs"
  by (simp add: percent_encoded_def)

lemma percent_encoded_fixed:
  "percent_encoded t = t \<longleftrightarrow> (\<forall>c \<in> set t. always_safe c)"
proof (induction t)
  case Nil
  then show ?case by (simp add: percent_encoded_def)
next
  case (Cons c cs)
  show ?case
  proof (cases "always_safe c")
    case True
    with Cons show ?thesis by (simp add: percent_encoded_Cons)
  next
    case False
    then have "length (percent_encoded (c # cs)) = 3 + length (percent_encoded cs)"
      by (simp add: percent_encoded_Cons percent_byte_def)
    with length_percent_encoded [of cs]
    have "length (percent_encoded (c # cs)) \<noteq> length (c # cs)"
      by simp
    then have "percent_encoded (c # cs) \<noteq> c # cs"
      by auto
    with False show ?thesis by auto
  qed
qed

lemma read_resource_run:
  assumes "is_connected st"
    and "get_db_config py env = Inr config"
    and "startswith uri_str ''mysql://''"
  shows "read_resource py env drv uri_str st =
           \<lparr> returned = fst (read_resource_end st (run_session
                 (drv config (PStr (''SELECT * FROM '' @ table_of_uri uri_str @ '' LIMIT 100'')))
                 format_rows)),
             state_after = snd (read_resource_end st (run_session
                 (drv config (PStr (''SELECT * FROM '' @ table_of_uri uri_str @ '' LIMIT 100'')))
                 format_rows)),
             db_calls =
               [(config, PStr (''SELECT * FROM '' @ table_of_uri uri_str @ '' LIMIT 100''))] \<rparr>"
  using assms by (simp add: read_resource_def Let_def split: prod.splits)

lemma startswith_scheme: "startswith (''mysql://'' @ rest) ''mysql://''"
  by (simp add: startswith_def)

lemma percent_encoded_my_table: "percent_encoded ''my table'' = ''my%20table''"
  by (simp add: percent_encoded_def always_safe_def percent_byte_def hex_char_def)

lemma percent_encoded_users: "percent_encoded ''users'' = ''users''"
  by (simp add: percent_encoded_def always_safe_def)

text \<open>
  C2, as stated: for a table name with a space or a slash, \<^verbatim>\<open>list_resources\<close> returns
  a URI with the percent-encoded name, and the segment that \<^verbatim>\<open>read_resource\<close>
  extracts from that URI, taken without decoding, equals the original name. This
  fails: for the table \<^verbatim>\<open>my table\<close> the URI is \<^verbatim>\<open>mysql://my%20table/data\<close>,
  \<^verbatim>\<open>read_resource\<close> extracts \<^verbatim>\<open>my%20table\<close> and selects from that, and a
  database that holds the table \<^verbatim>\<open>my table\<close> answers that there is no such table.
\<close>

theorem table_name_round_trip_counterexample:
  "returned (list_resources ascii_python example_env (tables_driver [''my table''])
       connected_state)
     = Inr [\<lparr> r_uri = ''mysql://my%20table/data'', r_name = ''Table: my table'',
              r_mimeType = ''text/plain'', r_description = ''Data in table: my table'' \<rparr>]
   \<and> table_of_uri ''mysql://my%20table/data'' = ''my%20table''
   \<and> table_of_uri ''mysql://my%20table/data'' \<noteq> ''my table''
   \<and> read_resource ascii_python example_env (one_table_driver ''my table'')
         ''mysql://my%20table/data'' connected_state
     = \<lparr> returned = Inr ''Error: 1146 (42S02): no such table'',
         state_after = connected_state,
         db_calls = [(example_config, PStr ''SELECT * FROM my%20table LIMIT 100'')] \<rparr>"
proof -
  have t: "table_of_uri ''mysql://my%20table/data'' = ''my%20table''"
    by (simp add: table_of_uri_def)
  have q: "quote ''my table'' = ''my%20table''"
    using quote_percent_encoded [of "''my table''"] by (simp add: percent_encoded_my_table)
  have l: "returned (list_resources ascii_python example_env (tables_driver [''my table''])
       connected_state)
     = Inr [\<lparr> r_uri = ''mysql://my%20table/data'', r_name = ''Table: my table'',
              r_mimeType = ''text/plain'', r_description = ''Data in table: my table'' \<rparr>]"
    by (simp add: list_resources_def connected_state_def example_config_ok tables_driver_def
        run_session_def list_resources_body_def q)
  have c: "is_connected connected_state"
    by (simp add: connected_state_def)
  have sw: "startswith ''mysql://my%20table/data'' ''mysql://''"
    by (simp add: startswith_def)
  have r: "read_resource ascii_python example_env (one_table_driver ''my table'')
         ''mysql://my%20table/data'' connected_state
     = \<lparr> returned = Inr ''Error: 1146 (42S02): no such table'',
         state_after = connected_state,
         db_calls = [(example_config, PStr ''SELECT * FROM my%20table LIMIT 100'')] \<rparr>"
    using read_resource_run [where drv = "one_table_driver ''my table''",
        OF c example_config_ok sw]
    by (simp add: t one_table_driver_def run_session_def)
  show ?thesis
    using t l r by simp
qed

text \<open>
  C2, amended: while connected, for every table name without a slash,
  \<^verbatim>\<open>list_resources\<close> returns the URI \<^verbatim>\<open>mysql://\<close> + the percent-encoded name +
  \<^verbatim>\<open>/data\<close> (every byte other than a letter, a digit or one of \<^verbatim>\<open>_.-~\<close> escaped, a
  space as \<^verbatim>\<open>%20\<close>); \<^verbatim>\<open>read_resource\<close> applied to that URI extracts the
  percent-encoded segment, undecoded, and asks the database, whichever it is, for
  \<^verbatim>\<open>SELECT * FROM\<close> that segment \<^verbatim>\<open>LIMIT 100\<close>; and the extracted segment equals
  the original name exactly when the name consists of letters, digits and
  \<^verbatim>\<open>_.-~\<close> only.
\<close>

theorem table_name_uri_segment:
  assumes "is_connected st"
    and "get_db_config py env = Inr config"
    and "drv config (PStr ''SHOW TABLES'') = Session (Inr cur) None"
    and "fetchall cur = Inr (map (\<lambda>t. [CStr t]) names)"
  shows "\<exists>rs. returned (list_resources py env drv st) = Inr rs
       \<and> state_after (list_resources py env drv st) = st
       \<and> length rs = length names
       \<and> (\<forall>i < length names. CHR ''/'' \<notin> set (names ! i) \<longrightarrow>
             rs ! i = \<lparr> r_uri = ''mysql://'' @ percent_encoded (names ! i) @ ''/data'',
                         r_name = ''Table: '' @ names ! i,
                         r_mimeType = ''text/plain'',
                         r_description = ''Data in table: '' @ names ! i \<rparr>
           \<and> table_of_uri (r_uri (rs ! i)) = percent_encoded (names ! i)
           \<and> (\<forall>drv'. read_resource py env drv' (r_uri (rs ! i)) st =
                 \<lparr> returned = fst (read_resource_end st (run_session
                       (drv' config
                          (PStr (''SELECT * FROM '' @ percent_encoded (names ! i) @ '' LIMIT 100'')))
                       format_rows)),
                   state_after = snd (read_resource_end st (run_session
                       (drv' config
                          (PStr (''SELECT * FROM '' @ percent_encoded (names ! i) @ '' LIMIT 100'')))
                       format_rows)),
                   db_calls =
                     [(config,
                       PStr (''SELECT * FROM '' @ percent_encoded (names ! i) @ '' LIMIT 100''))] \<rparr>)
           \<and> (table_of_uri (r_uri (rs ! i)) = names ! i
                \<longleftrightarrow> (\<forall>c \<in> set (names ! i). always_safe c)))"
proof -
  define mk where "mk = (\<lambda>t. \<lparr> r_uri = ''mysql://'' @ quote t @ ''/data'',
      r_name = ''Table: '' @ t, r_mimeType = ''text/plain'',
      r_description = ''Data in table: '' @ t \<rparr>)"
  have l: "list_resources py env drv st =
      \<lparr> returned = Inr (map mk names), state_after = st,
        db_calls = [(config, PStr ''SHOW TABLES'')] \<rparr>"
    unfolding mk_def
    by (simp add: list_resources_def assms run_session_def list_resources_body_def
        resources_of_names)
  have a: "returned (list_resources py env drv st) = Inr (map mk names)"
    by (simp add: l)
  have b: "state_after (list_resources py env drv st) = st"
    by (simp add: l)
  have r: "map mk names ! i = \<lparr> r_uri = ''mysql://'' @ percent_encoded (names ! i) @ ''/data'',
                         r_name = ''Table: '' @ names ! i,
                         r_mimeType = ''text/plain'',
                         r_description = ''Data in table: '' @ names ! i \<rparr>
           \<and> table_of_uri (r_uri (map mk names ! i)) = percent_encoded (names ! i)
           \<and> (\<forall>drv'. read_resource py env drv' (r_uri (map mk names ! i)) st =
                 \<lparr> returned = fst (read_resource_end st (run_session
                       (drv' config
                          (PStr (''SELECT * FROM '' @ percent_encoded (names ! i) @ '' LIMIT 100'')))
                       format_rows)),
                   state_after = snd (read_resource_end st (run_session
                       (drv' config
                          (PStr (''SELECT * FROM '' @ percent_encoded (names ! i) @ '' LIMIT 100'')))
                       format_rows)),
                   db_calls =
                     [(config,
                       PStr (''SELECT * FROM '' @ percent_encoded (names ! i) @ '' LIMIT 100''))] \<rparr>)
           \<and> (table_of_uri (r_uri (map mk names ! i)) = names ! i
                \<longleftrightarrow> (\<forall>c \<in> set (names ! i). always_safe c))"
    if i: "i < length names" and ns: "CHR ''/'' \<notin> set (names ! i)" for i
  proof -
    let ?t = "names ! i"
    let ?u = "''mysql://'' @ percent_encoded ?t @ ''/data''"
    have qe: "quote ?t = percent_encoded ?t"
      by (rule quote_percent_encoded [OF ns])
    have m: "map mk names ! i = \<lparr> r_uri = ?u, r_name = ''Table: '' @ ?t,
        r_mimeType = ''text/plain'', r_description = ''Data in table: '' @ ?t \<rparr>"
      using i by (simp add: mk_def qe)
    have u: "r_uri (map mk names ! i) = ?u"
      by (simp only: m resource.simps)
    have seg: "table_of_uri ?u = percent_encoded ?t"
      by (rule table_of_uri_segment [OF percent_encoded_no_slash])
    have rd: "read_resource py env drv' ?u st =
                 \<lparr> returned = fst (read_resource_end st (run_session
                       (drv' config (PStr (''SELECT * FROM '' @ percent_encoded ?t @ '' LIMIT 100'')))
                       format_rows)),
                   state_after = snd (read_resource_end st (run_session
                       (drv' config (PStr (''SELECT * FROM '' @ percent_encoded ?t @ '' LIMIT 100'')))
                       format_rows)),
                   db_calls =
                     [(config, PStr (''SELECT * FROM '' @ percent_encoded ?t @ '' LIMIT 100''))] \<rparr>"
      for drv'
      using read_resource_run [where drv = drv',
          OF assms(1,2) startswith_scheme [of "percent_encoded ?t @ ''/data''"]]
      by (simp only: seg)
    show ?thesis
      unfolding u by (simp only: m seg rd percent_encoded_fixed simp_thms)
  qed
  have "length (map mk names) = length names"
    by simp
  with a b r show ?thesis
    by blast
qed

theorem table_name_uri_segment_witness:
  "returned (list_resources ascii_python example_env (tables_driver [''my table'', ''users''])
       connected_state)
     = Inr [\<lparr> r_uri = ''mysql://my%20table/data'', r_name = ''Table: my table'',
              r_mimeType = ''text/plain'', r_description = ''Data in table: my table'' \<rparr>,
            \<lparr> r_uri = ''mysql://users/data'', r_name = ''Table: users'',
              r_mimeType = ''text/plain'', r_description = ''Data in table: users'' \<rparr>]
   \<and> table_of_uri ''mysql://my%20table/data'' = ''my%20table''
   \<and> table_of_uri ''mysql://users/data'' = ''users''
   \<and> read_resource ascii_python example_env (one_table_driver ''my%20table'')
         ''mysql://my%20table/data'' connected_state
     = \<lparr> returned = Inr (''a,b'' @ [CHR 0x0A] @ ''1,x'' @ [CHR 0x0A] @ ''2,y''),
         state_after = connected_state,
         db_calls = [(example_config, PStr ''SELECT * FROM my%20table LIMIT 100'')] \<rparr>
   \<and> read_resource ascii_python example_env (one_table_driver ''users'')
         ''mysql://users/data'' connected_state
     = \<lparr> returned = Inr (''a,b'' @ [CHR 0x0A] @ ''1,x'' @ [CHR 0x0A] @ ''2,y''),
         state_after = connected_state,
         db_calls = [(example_config, PStr ''SELECT * FROM users LIMIT 100'')] \<rparr>"
proof -
  let ?names = "[''my table'', ''users'']"
  let ?cur = "\<lparr> description = Some [''Tables_in_d''],
                 fetchall = Inr (map (\<lambda>t. [CStr t]) ?names),
                 rowcount = int (length ?names), commit = None \<rparr>"
  let ?py = ascii_python
  let ?st = connected_state
  have 1: "is_connected ?st"
    by (simp add: connected_state_def)
  have 3: "tables_driver ?names example_config (PStr ''SHOW TABLES'') = Session (Inr ?cur) None"
    by (simp add: tables_driver_def)
  have 4: "fetchall ?cur = Inr (map (\<lambda>t. [CStr t]) ?names)"
    by simp
  from table_name_uri_segment [where drv = "tables_driver ?names" and names = ?names,
      OF 1 example_config_ok 3 4]
  obtain rs where rs: "returned (list_resources ?py example_env (tables_driver ?names) ?st) = Inr rs"
    and len: "length rs = length ?names"
    and all: "\<And>i. i < length ?names \<Longrightarrow> CHR ''/'' \<notin> set (?names ! i) \<Longrightarrow>
        rs ! i = \<lparr> r_uri = ''mysql://'' @ percent_encoded (?names ! i) @ ''/data'',
                    r_name = ''Table: '' @ ?names ! i,
                    r_mimeType = ''text/plain'',
                    r_description = ''Data in table: '' @ ?names ! i \<rparr>
        \<and> table_of_uri (r_uri (rs ! i)) = percent_encoded (?names ! i)
        \<and> (\<forall>drv'. read_resource ?py example_env drv' (r_uri (rs ! i)) ?st =
              \<lparr> returned = fst (read_resource_end ?st (run_session
                    (drv' example_config
                       (PStr (''SELECT * FROM '' @ percent_encoded (?names ! i) @ '' LIMIT 100'')))
                    format_rows)),
                state_after = snd (read_resource_end ?st (run_session
                    (drv' example_config
                       (PStr (''SELECT * FROM '' @ percent_encoded (?names ! i) @ '' LIMIT 100'')))
                    format_rows)),
                db_calls =
                  [(example_config,
                    PStr (''SELECT * FROM '' @ percent_encoded (?names ! i) @ '' LIMIT 100''))] \<rparr>)"
    by blast
  have r0: "rs ! 0 = \<lparr> r_uri = ''mysql://my%20table/data'', r_name = ''Table: my table'',
              r_mimeType = ''text/plain'', r_description = ''Data in table: my table'' \<rparr>"
    using all [of 0] by (simp add: percent_encoded_my_table)
  have r1: "rs ! Suc 0 = \<lparr> r_uri = ''mysql://users/data'', r_name = ''Table: users'',
              r_mimeType = ''text/plain'', r_description = ''Data in table: users'' \<rparr>"
    using all [of "Suc 0"] by (simp add: percent_encoded_users)
  have "rs = [rs ! 0, rs ! Suc 0]"
    using len by (intro nth_equalityI) (auto simp: less_Suc_eq)
  then have l: "rs = [\<lparr> r_uri = ''mysql://my%20table/data'', r_name = ''Table: my table'',
              r_mimeType = ''text/plain'', r_description = ''Data in table: my table'' \<rparr>,
            \<lparr> r_uri = ''mysql://users/data'', r_name = ''Table: users'',
              r_mimeType = ''text/plain'', r_description = ''Data in table: users'' \<rparr>]"
    by (simp only: r0 r1)
  have t0: "table_of_uri ''mysql://my%20table/data'' = ''my%20table''"
    using all [of 0] by (simp add: r0 percent_encoded_my_table)
  have t1: "table_of_uri ''mysql://users/data'' = ''users''"
    using all [of "Suc 0"] by (simp add: r1 percent_encoded_users)
  have d0: "read_resource ?py example_env (one_table_driver ''my%20table'')
         ''mysql://my%20table/data'' ?st
     = \<lparr> returned = Inr (''a,b'' @ [CHR 0x0A] @ ''1,x'' @ [CHR 0x0A] @ ''2,y''),
         state_after = ?st,
         db_calls = [(example_config, PStr ''SELECT * FROM my%20table LIMIT 100'')] \<rparr>"
    using all [of 0] example_rows_text
    by (simp add: r0 percent_encoded_my_table one_table_driver_def run_session_def)
  have d1: "read_resource ?py example_env (one_table_driver ''users'')
         ''mysql://users/data'' ?st
     = \<lparr> returned = Inr (''a,b'' @ [CHR 0x0A] @ ''1,x'' @ [CHR 0x0A] @ ''2,y''),
         state_after = ?st,
         db_calls = [(example_config, PStr ''SELECT * FROM users LIMIT 100'')] \<rparr>"
    using all [of "Suc 0"] example_rows_text
    by (simp add: r1 percent_encoded_users one_table_driver_def run_session_def)
  show ?thesis
    using rs l t0 t1 d0 d1 by simp
qed

text \<open>
  A table name with a slash: \<^verbatim>\<open>quote\<close> leaves the slash as it is, so the name
  does not stay one path segment of the URI.
\<close>

lemma slash_not_encoded:
  "quote ''a/b'' = ''a/b'' \<and> table_of_uri (''mysql://'' @ quote ''a/b'' @ ''/data'') = ''a''"
proof -
  have "quote ''a/b'' = ''a/b''"
    by (simp add: quote_def quote_char_def always_safe_def)
  then show ?thesis
    by (simp add: table_of_uri_def)
qed

end
